theory Spec2Isabelle
  imports Main
begin

section \<open>Python values and exceptions\<close>

text \<open>
  The exception classes the modelled code raises or lets through. The payload of
  \<open>NotImplementedError\<close> is the object formatted into its message.
\<close>

datatype 'a pyerr =
    NotImplementedError 'a
  | ValueError
  | TypeError
  | KeyError string
  | IndexError
  | AttributeError
  | NameError
  | OverflowError
  | AssertionError string
  | OtherException string

text \<open>
  The objects listed in \<open>SAFE_GLOBALS_LIST\<close>, one constructor each, under the names the
  module binds them to (\<open>slice\<close> is the class that \<^verbatim>\<open>from ast import *\<close> binds to that name;
  the others are the interpreter's built-ins).
\<close>

datatype builtin =
    B_abs | B_all | B_any | B_ascii | B_bin | B_bool | B_bytes | B_bytearray
  | B_callable | B_chr | B_classmethod | B_compile | B_complex | B_delattr | B_dict
  | B_dir | B_divmod | B_enumerate | B_filter | B_float | B_format | B_frozenset
  | B_getattr | B_hasattr | B_hash | B_hex | B_id | B_input | B_int | B_isinstance
  | B_issubclass | B_iter | B_len | B_list | B_map | B_max | B_min | B_next
  | B_object | B_oct | B_open | B_ord | B_pow | B_print | B_property | B_range
  | B_repr | B_reversed | B_round | B_set | B_setattr | B_slice | B_sorted
  | B_staticmethod | B_str | B_sum | B_super | B_tuple | B_type | B_vars | B_zip

text \<open>\<open>x.__name__\<close> of a built-in.\<close>

fun builtin_name :: "builtin \<Rightarrow> string" where
  "builtin_name B_abs = ''abs''"
| "builtin_name B_all = ''all''"
| "builtin_name B_any = ''any''"
| "builtin_name B_ascii = ''ascii''"
| "builtin_name B_bin = ''bin''"
| "builtin_name B_bool = ''bool''"
| "builtin_name B_bytes = ''bytes''"
| "builtin_name B_bytearray = ''bytearray''"
| "builtin_name B_callable = ''callable''"
| "builtin_name B_chr = ''chr''"
| "builtin_name B_classmethod = ''classmethod''"
| "builtin_name B_compile = ''compile''"
| "builtin_name B_complex = ''complex''"
| "builtin_name B_delattr = ''delattr''"
| "builtin_name B_dict = ''dict''"
| "builtin_name B_dir = ''dir''"
| "builtin_name B_divmod = ''divmod''"
| "builtin_name B_enumerate = ''enumerate''"
| "builtin_name B_filter = ''filter''"
| "builtin_name B_float = ''float''"
| "builtin_name B_format = ''format''"
| "builtin_name B_frozenset = ''frozenset''"
| "builtin_name B_getattr = ''getattr''"
| "builtin_name B_hasattr = ''hasattr''"
| "builtin_name B_hash = ''hash''"
| "builtin_name B_hex = ''hex''"
| "builtin_name B_id = ''id''"
| "builtin_name B_input = ''input''"
| "builtin_name B_int = ''int''"
| "builtin_name B_isinstance = ''isinstance''"
| "builtin_name B_issubclass = ''issubclass''"
| "builtin_name B_iter = ''iter''"
| "builtin_name B_len = ''len''"
| "builtin_name B_list = ''list''"
| "builtin_name B_map = ''map''"
| "builtin_name B_max = ''max''"
| "builtin_name B_min = ''min''"
| "builtin_name B_next = ''next''"
| "builtin_name B_object = ''object''"
| "builtin_name B_oct = ''oct''"
| "builtin_name B_open = ''open''"
| "builtin_name B_ord = ''ord''"
| "builtin_name B_pow = ''pow''"
| "builtin_name B_print = ''print''"
| "builtin_name B_property = ''property''"
| "builtin_name B_range = ''range''"
| "builtin_name B_repr = ''repr''"
| "builtin_name B_reversed = ''reversed''"
| "builtin_name B_round = ''round''"
| "builtin_name B_set = ''set''"
| "builtin_name B_setattr = ''setattr''"
| "builtin_name B_slice = ''slice''"
| "builtin_name B_sorted = ''sorted''"
| "builtin_name B_staticmethod = ''staticmethod''"
| "builtin_name B_str = ''str''"
| "builtin_name B_sum = ''sum''"
| "builtin_name B_super = ''super''"
| "builtin_name B_tuple = ''tuple''"
| "builtin_name B_type = ''type''"
| "builtin_name B_vars = ''vars''"
| "builtin_name B_zip = ''zip''"

text \<open>
  Values the host interpreter can hand back to the folding pass. \<open>PErr\<close> is the local
  function \<open>err\<close> of \<open>non_overwritten_globals\<close>; \<open>PObject\<close> stands for every other host
  object (functions, classes, modules, floats, sets), named by its representation.
\<close>

datatype pyval =
    PInt int
  | PStr string
  | PBytes "nat list"
  | PNone
  | PBool bool
  | PList "pyval list"
  | PDict "(pyval \<times> pyval) list"
  | PTuple "pyval list"
  | PBuiltin builtin
  | PErr
  | PObject string

datatype pytype = T_int | T_str | T_bytes | T_NoneType | T_bool | T_list | T_dict

text \<open>\<open>isinstance(v, t)\<close>; \<open>bool\<close> is a subclass of \<open>int\<close>.\<close>

fun isinstance :: "pyval \<Rightarrow> pytype \<Rightarrow> bool" where
  "isinstance (PInt _) t = (t = T_int)"
| "isinstance (PStr _) t = (t = T_str)"
| "isinstance (PBytes _) t = (t = T_bytes)"
| "isinstance PNone t = (t = T_NoneType)"
| "isinstance (PBool _) t = (t = T_bool \<or> t = T_int)"
| "isinstance (PList _) t = (t = T_list)"
| "isinstance (PDict _) t = (t = T_dict)"
| "isinstance (PTuple _) t = False"
| "isinstance (PBuiltin _) t = False"
| "isinstance PErr t = False"
| "isinstance (PObject _) t = False"

section \<open>The source AST\<close>

record span =
  lineno :: nat
  col_offset :: nat
  end_lineno :: nat
  end_col_offset :: nat

datatype expr_context = Load | Store | Del

datatype operator = Add | Sub | Mult | FloorDiv | Mod_op | Pow
datatype unaryop = USub | Not_op
datatype boolop = And | Or
datatype cmpop = Eq | NotEq | Lt | LtE | Gt | GtE | Is | IsNot | In | NotIn

datatype expr =
    Constant span pyval
  | Name span string expr_context
  | BinOp span expr operator expr
  | UnaryOp span unaryop expr
  | BoolOp span boolop "expr list"
  | Compare span expr "cmpop list" "expr list"
  | Call span expr "expr list" "(string option \<times> expr) list"
  | IfExp span expr expr expr
  | Attribute span expr string expr_context
  | Subscript span expr expr expr_context
  | List_expr span "expr list" expr_context
  | Tuple_expr span "expr list" expr_context
  | Dict_expr span "expr option list" "expr list"

text \<open>\<open>alias(name, asname)\<close>, \<open>arg(arg, annotation)\<close>, \<open>arguments(args, defaults)\<close>.\<close>

datatype py_alias = Alias string "string option"
datatype py_arg = Arg string "expr option"
datatype arguments = Arguments "py_arg list" "expr list"

datatype stmt =
    FunctionDef string arguments "stmt list" "expr option"
  | ClassDef string "expr list" "stmt list"
  | Return "expr option"
  | Assign "expr list" expr
  | AnnAssign expr expr "expr option"
  | For expr expr "stmt list" "stmt list"
  | While expr "stmt list" "stmt list"
  | If_stmt expr "stmt list" "stmt list"
  | Assert expr "expr option"
  | Import "py_alias list"
  | ImportFrom string "py_alias list"
  | Expr expr
  | Pass

datatype module = Module "stmt list"

text \<open>Any node a visitor can be called on; \<open>NoneNode\<close> is \<open>visit(None)\<close>.\<close>

datatype node =
    ModuleNode module
  | StmtNode stmt
  | ExprNode expr
  | ArgumentsNode arguments
  | ArgNode py_arg
  | KeywordNode "string option \<times> expr"
  | AliasNode py_alias
  | NoneNode

text \<open>
  What a visit can raise: a \<open>CompilerError(orig_err, node, compilation_step)\<close>, another
  subclass of \<open>Exception\<close>, or a \<open>BaseException\<close> outside \<open>Exception\<close>
  (\<open>SystemExit\<close>, \<open>KeyboardInterrupt\<close>), which \<open>except Exception\<close> does not catch.
\<close>

datatype exn =
    CompilerError exn node string
  | Exc "unit pyerr"
  | BaseExc string

fun is_Exception :: "exn \<Rightarrow> bool" where
  "is_Exception (CompilerError _ _ _) = True"
| "is_Exception (Exc _) = True"
| "is_Exception (BaseExc _) = False"

fun is_CompilerError :: "exn \<Rightarrow> bool" where
  "is_CompilerError (CompilerError _ _ _) = True"
| "is_CompilerError _ = False"

section \<open>\<open>util.py\<close>: the visitor wrappers\<close>

text \<open>
  \<open>CompilingNodeTransformer.visit\<close> and \<open>CompilingNodeVisitor.visit\<close>. The third argument
  is the outcome of \<open>super().visit(node)\<close>; \<open>step\<close> is \<open>self.step\<close>.
\<close>

definition CompilingNodeTransformer_visit :: "string \<Rightarrow> node \<Rightarrow> exn + 'r \<Rightarrow> exn + 'r" where
  "CompilingNodeTransformer_visit step nd super_visit =
     (case super_visit of
        Inr r \<Rightarrow> Inr r
      | Inl e \<Rightarrow>
          if is_Exception e then
            (if is_CompilerError e then Inl e else Inl (CompilerError e nd step))
          else Inl e)"

definition CompilingNodeVisitor_visit :: "string \<Rightarrow> node \<Rightarrow> exn + 'r \<Rightarrow> exn + 'r" where
  "CompilingNodeVisitor_visit step nd super_visit =
     (case super_visit of
        Inr r \<Rightarrow> Inr r
      | Inl e \<Rightarrow>
          if is_Exception e then
            (if is_CompilerError e then Inl e else Inl (CompilerError e nd step))
          else Inl e)"

section \<open>\<open>util.py\<close>: \<open>data_from_json\<close>\<close>

text \<open>
  A host float: a finite one is the dyadic rational \<open>m / 2 ^ k\<close>; the others are the two
  infinities (\<open>Infinity True\<close> the positive one) and not-a-number.
\<close>

datatype pyfloat = Finite int nat | Infinity bool | NaN

text \<open>
  JSON values as the host's \<open>json\<close> module yields them; a dict is an association list with
  distinct keys, a string a list of code points below 256. \<open>PlutusMap\<close> and \<open>PlutusConstr\<close>
  store their arguments undecoded, as the source passes them.
\<close>

datatype json = JNull | JBool bool | JInt int | JFloat pyfloat | JStr string
  | JList "json list" | JDict "(string \<times> json) list"

datatype plutus_data =
    PlutusByteString "nat list"
  | PlutusInteger int
  | PlutusList "plutus_data list"
  | PlutusMap "(json \<times> json) list"
  | PlutusConstr json json

text \<open>\<open>sub in s\<close> on strings.\<close>

fun startswith :: "string \<Rightarrow> string \<Rightarrow> bool" where
  "startswith s [] = True"
| "startswith [] (p # ps) = False"
| "startswith (c # cs) (p # ps) = (c = p \<and> startswith cs ps)"

fun str_contains :: "string \<Rightarrow> string \<Rightarrow> bool" where
  "str_contains sub [] = (sub = [])"
| "str_contains sub (c # cs) = (startswith (c # cs) sub \<or> str_contains sub cs)"

fun py_contains :: "string \<Rightarrow> json \<Rightarrow> json pyerr + bool" where
  "py_contains k (JDict kvs) = Inr (k \<in> set (map fst kvs))"
| "py_contains k (JStr s) = Inr (str_contains k s)"
| "py_contains k (JList xs) = Inr (JStr k \<in> set xs)"
| "py_contains k _ = Inl TypeError"

fun py_getitem :: "json \<Rightarrow> string \<Rightarrow> json pyerr + json" where
  "py_getitem (JDict kvs) k = (case map_of kvs k of None \<Rightarrow> Inl (KeyError k) | Some v \<Rightarrow> Inr v)"
| "py_getitem _ k = Inl TypeError"

fun py_iter :: "json \<Rightarrow> json pyerr + json list" where
  "py_iter (JList xs) = Inr xs"
| "py_iter (JDict kvs) = Inr (map (\<lambda>kv. JStr (fst kv)) kvs)"
| "py_iter (JStr s) = Inr (map (\<lambda>c. JStr [c]) s)"
| "py_iter _ = Inl TypeError"

text \<open>ASCII white space, which \<open>bytes.fromhex\<close> skips between bytes.\<close>

definition isspace :: "char \<Rightarrow> bool" where
  "isspace c = (c \<in> set [CHR '' '', CHR 0x09, CHR 0x0A, CHR 0x0B, CHR 0x0C, CHR 0x0D])"

definition hexval :: "char \<Rightarrow> nat option" where
  "hexval c =
     (let n = (of_char c :: nat) in
      if 48 \<le> n \<and> n \<le> 57 then Some (n - 48)
      else if 97 \<le> n \<and> n \<le> 102 then Some (n - 87)
      else if 65 \<le> n \<and> n \<le> 70 then Some (n - 55)
      else None)"

fun fromhex :: "string \<Rightarrow> nat list option" where
  "fromhex [] = Some []"
| "fromhex (c # cs) =
     (if isspace c then fromhex cs
      else (case cs of
              [] \<Rightarrow> None
            | d # ds \<Rightarrow>
                (case (hexval c, hexval d) of
                   (Some a, Some b) \<Rightarrow> map_option ((#) (16 * a + b)) (fromhex ds)
                 | _ \<Rightarrow> None)))"


definition bytes_fromhex :: "json \<Rightarrow> json pyerr + nat list" where
  "bytes_fromhex v =
     (case v of
        JStr s \<Rightarrow> (case fromhex s of None \<Rightarrow> Inl ValueError | Some bs \<Rightarrow> Inr bs)
      | _ \<Rightarrow> Inl TypeError)"

definition isdigit :: "char \<Rightarrow> bool" where
  "isdigit c = (48 \<le> (of_char c :: nat) \<and> (of_char c :: nat) \<le> 57)"

definition digit_val :: "char \<Rightarrow> nat" where
  "digit_val c = (of_char c :: nat) - 48"

fun digit_seq :: "nat \<Rightarrow> string \<Rightarrow> nat option" where
  "digit_seq acc [] = Some acc"
| "digit_seq acc [c] = (if isdigit c then Some (10 * acc + digit_val c) else None)"
| "digit_seq acc (c # d # ds) =
     (if isdigit c then digit_seq (10 * acc + digit_val c) (d # ds)
      else if c = CHR ''_'' \<and> isdigit d then digit_seq (10 * acc + digit_val d) ds
      else None)"

fun parse_nat :: "string \<Rightarrow> nat option" where
  "parse_nat [] = None"
| "parse_nat (c # cs) = (if isdigit c then digit_seq (digit_val c) cs else None)"

text \<open>
  White space in the sense of \<open>str.isspace\<close>, which \<open>int\<close> strips from both ends of a string:
  among the code points below 256 these are 9 to 13, 28 to 32, 133 and 160.
\<close>

definition unicode_isspace :: "char \<Rightarrow> bool" where
  "unicode_isspace c =
     (let n = (of_char c :: nat) in
      (9 \<le> n \<and> n \<le> 13) \<or> (28 \<le> n \<and> n \<le> 32) \<or> n = 133 \<or> n = 160)"

definition strip :: "string \<Rightarrow> string" where
  "strip s = rev (dropWhile unicode_isspace (rev (dropWhile unicode_isspace s)))"

text \<open>The interpreter's default limit on the number of digits of a decimal string.\<close>

definition int_max_str_digits :: nat where
  "int_max_str_digits = 4300"

definition parse_digits :: "string \<Rightarrow> nat option" where
  "parse_digits s =
     (if length (filter isdigit s) > int_max_str_digits then None else parse_nat s)"

definition parse_int :: "string \<Rightarrow> int option" where
  "parse_int s =
     (case strip s of
        [] \<Rightarrow> None
      | c # cs \<Rightarrow>
          if c = CHR ''+'' then map_option int (parse_digits cs)
          else if c = CHR ''-'' then map_option (\<lambda>n. - int n) (parse_digits cs)
          else map_option int (parse_digits (c # cs)))"

text \<open>\<open>int(f)\<close> of a finite float truncates towards zero.\<close>

definition float_trunc :: "int \<Rightarrow> nat \<Rightarrow> int" where
  "float_trunc m k = (if 0 \<le> m then m div 2 ^ k else - ((- m) div 2 ^ k))"

text \<open>
  \<open>int(v)\<close>: an integer as it is, a Boolean as 0 or 1, a float truncated (\<open>OverflowError\<close>
  on an infinity, \<open>ValueError\<close> on not-a-number), a string parsed as a signed decimal
  numeral with single underscores between digits; \<open>TypeError\<close> on \<open>None\<close>, a list or a dict.
\<close>

definition py_int :: "json \<Rightarrow> json pyerr + int" where
  "py_int v =
     (case v of
        JInt i \<Rightarrow> Inr i
      | JBool b \<Rightarrow> Inr (if b then 1 else 0)
      | JFloat f \<Rightarrow>
          (case f of
             Finite m k \<Rightarrow> Inr (float_trunc m k)
           | Infinity _ \<Rightarrow> Inl OverflowError
           | NaN \<Rightarrow> Inl ValueError)
      | JStr s \<Rightarrow> (case parse_int s of None \<Rightarrow> Inl ValueError | Some i \<Rightarrow> Inr i)
      | _ \<Rightarrow> Inl TypeError)"

fun hashable :: "json \<Rightarrow> bool" where
  "hashable (JList _) = False"
| "hashable (JDict _) = False"
| "hashable _ = True"

text \<open>The representation \<open>m / 2 ^ k\<close> of a finite float with \<open>k\<close> least.\<close>

fun float_norm :: "int \<Rightarrow> nat \<Rightarrow> int \<times> nat" where
  "float_norm m 0 = (m, 0)"
| "float_norm m (Suc k) = (if even m then float_norm (m div 2) k else (m, Suc k))"

text \<open>
  Keys of a dict are the same key when they are equal: \<open>True\<close> and \<open>1\<close> and \<open>1.0\<close> are one
  key. \<open>key_norm\<close> maps equal keys to one representative.
\<close>

fun key_norm :: "json \<Rightarrow> json" where
  "key_norm (JBool b) = JInt (if b then 1 else 0)"
| "key_norm (JFloat (Finite m k)) =
     (case float_norm m k of
        (m', 0) \<Rightarrow> JInt m'
      | (m', Suc k') \<Rightarrow> JFloat (Finite m' (Suc k')))"
| "key_norm j = j"

fun dict_set :: "(json \<times> json) list \<Rightarrow> json \<Rightarrow> json \<Rightarrow> (json \<times> json) list" where
  "dict_set [] k v = [(k, v)]"
| "dict_set ((k', v') # r) k v =
     (if key_norm k' = key_norm k then (k', v) # r else (k', v') # dict_set r k v)"

fun map_comprehension ::
  "json list \<Rightarrow> (json \<times> json) list \<Rightarrow> json pyerr + (json \<times> json) list" where
  "map_comprehension [] acc = Inr acc"
| "map_comprehension (d # ds) acc =
     (case py_getitem d ''k'' of
        Inl e \<Rightarrow> Inl e
      | Inr k \<Rightarrow>
          (case py_getitem d ''v'' of
             Inl e \<Rightarrow> Inl e
           | Inr v \<Rightarrow>
               if hashable k then map_comprehension ds (dict_set acc k v)
               else Inl TypeError))"

fun msz :: "json \<Rightarrow> nat" and msz_list :: "json list \<Rightarrow> nat"
  and msz_items :: "(string \<times> json) list \<Rightarrow> nat" where
  "msz (JList xs) = Suc (msz_list xs)"
| "msz (JDict kvs) = Suc (msz_items kvs)"
| "msz JNull = 0"
| "msz (JBool _) = 0"
| "msz (JInt _) = 0"
| "msz (JFloat _) = 0"
| "msz (JStr _) = 0"
| "msz_list [] = 0"
| "msz_list (x # xs) = msz x + msz_list xs"
| "msz_items [] = 0"
| "msz_items (kv # kvs) = msz (snd kv) + msz_items kvs"

lemma msz_map_of: "map_of kvs k = Some v \<Longrightarrow> msz v \<le> msz_items kvs"
  by (induction kvs) (auto split: if_splits)

lemma msz_list_JStr: "msz_list (map (\<lambda>x. JStr (f x)) xs) = 0"
  by (induction xs) auto

lemma msz_py_iter:
  "py_getitem j k = Inr v \<Longrightarrow> py_iter v = Inr xs \<Longrightarrow> msz_list xs < msz j"
proof (cases j)
  case (JDict kvs)
  assume g: "py_getitem j k = Inr v" and i: "py_iter v = Inr xs"
  from g JDict have "map_of kvs k = Some v" by (auto split: option.splits)
  then have le: "msz v \<le> msz_items kvs" by (rule msz_map_of)
  from i have "msz_list xs \<le> msz v"
    by (cases v) (auto simp: msz_list_JStr)
  with le JDict show ?thesis by simp
qed auto

function (sequential) data_from_json :: "json \<Rightarrow> json pyerr + plutus_data"
  and data_from_json_list :: "json list \<Rightarrow> json pyerr + plutus_data list" where
  "data_from_json j =
     (case py_contains ''bytes'' j of
        Inl e \<Rightarrow> Inl e
      | Inr True \<Rightarrow>
          (case py_getitem j ''bytes'' of
             Inl e \<Rightarrow> Inl e
           | Inr v \<Rightarrow>
               (case bytes_fromhex v of Inl e \<Rightarrow> Inl e | Inr bs \<Rightarrow> Inr (PlutusByteString bs)))
      | Inr False \<Rightarrow>
     (case py_contains ''int'' j of
        Inl e \<Rightarrow> Inl e
      | Inr True \<Rightarrow>
          (case py_getitem j ''int'' of
             Inl e \<Rightarrow> Inl e
           | Inr v \<Rightarrow> (case py_int v of Inl e \<Rightarrow> Inl e | Inr i \<Rightarrow> Inr (PlutusInteger i)))
      | Inr False \<Rightarrow>
     (case py_contains ''list'' j of
        Inl e \<Rightarrow> Inl e
      | Inr True \<Rightarrow>
          (case py_getitem j ''list'' of
             Inl e \<Rightarrow> Inl e
           | Inr v \<Rightarrow>
               (case py_iter v of
                  Inl e \<Rightarrow> Inl e
                | Inr xs \<Rightarrow>
                    (case data_from_json_list xs of
                       Inl e \<Rightarrow> Inl e
                     | Inr ds \<Rightarrow> Inr (PlutusList ds))))
      | Inr False \<Rightarrow>
     (case py_contains ''map'' j of
        Inl e \<Rightarrow> Inl e
      | Inr True \<Rightarrow>
          (case py_getitem j ''map'' of
             Inl e \<Rightarrow> Inl e
           | Inr v \<Rightarrow>
               (case py_iter v of
                  Inl e \<Rightarrow> Inl e
                | Inr ds \<Rightarrow>
                    (case map_comprehension ds [] of
                       Inl e \<Rightarrow> Inl e
                     | Inr m \<Rightarrow> Inr (PlutusMap m))))
      | Inr False \<Rightarrow>
     (case py_contains ''constructor'' j of
        Inl e \<Rightarrow> Inl e
      | Inr c \<Rightarrow>
     (case (if c then py_contains ''fields'' j else Inr False) of
        Inl e \<Rightarrow> Inl e
      | Inr True \<Rightarrow>
          (case py_getitem j ''constructor'' of
             Inl e \<Rightarrow> Inl e
           | Inr cv \<Rightarrow>
               (case py_getitem j ''fields'' of
                  Inl e \<Rightarrow> Inl e
                | Inr fv \<Rightarrow> Inr (PlutusConstr cv fv)))
      | Inr False \<Rightarrow> Inl (NotImplementedError j)))))))"
| "data_from_json_list [] = Inr []"
| "data_from_json_list (x # xs) =
     (case data_from_json x of
        Inl e \<Rightarrow> Inl e
      | Inr d \<Rightarrow>
          (case data_from_json_list xs of Inl e \<Rightarrow> Inl e | Inr ds \<Rightarrow> Inr (d # ds)))"
  by pat_completeness auto
termination
  by (relation "inv_image (less_than <*lex*> less_than)
        (\<lambda>a. case a of Inl j \<Rightarrow> (msz j, 0) | Inr xs \<Rightarrow> (msz_list xs, Suc (length xs)))")
     (auto dest: msz_py_iter)

section \<open>\<open>optimize_const_folding.py\<close>\<close>

definition ACCEPTED_ATOMIC_TYPES :: "pytype list" where
  "ACCEPTED_ATOMIC_TYPES = [T_int, T_str, T_bytes, T_NoneType, T_bool]"

definition SAFE_GLOBALS_LIST :: "builtin list" where
  "SAFE_GLOBALS_LIST =
     [B_abs, B_all, B_any, B_ascii, B_bin, B_bool, B_bytes, B_bytearray, B_callable, B_chr,
      B_classmethod, B_compile, B_complex, B_delattr, B_dict, B_dir, B_divmod, B_enumerate,
      B_filter, B_float, B_format, B_frozenset, B_getattr, B_hasattr, B_hash, B_hex, B_id,
      B_input, B_int, B_isinstance, B_issubclass, B_iter, B_len, B_list, B_map, B_max, B_min,
      B_next, B_object, B_oct, B_open, B_ord, B_pow, B_print, B_property, B_range, B_repr,
      B_reversed, B_round, B_set, B_setattr, B_slice, B_sorted, B_staticmethod, B_str, B_sum,
      B_super, B_tuple, B_type, B_vars, B_zip]"

text \<open>
  A dictionary built by the pass is kept as the list of its items, in insertion order and
  with distinct keys: \<open>d[k] = v\<close> replaces the value of an existing key or appends a new
  item.
\<close>

fun dict_insert :: "(string \<times> 'v) list \<Rightarrow> string \<Rightarrow> 'v \<Rightarrow> (string \<times> 'v) list" where
  "dict_insert [] k v = [(k, v)]"
| "dict_insert ((k', v') # d) k v =
     (if k' = k then (k', v) # d else (k', v') # dict_insert d k v)"

text \<open>\<open>{x.__name__: x for x in SAFE_GLOBALS_LIST}\<close>.\<close>

definition SAFE_GLOBALS :: "(string \<times> pyval) list" where
  "SAFE_GLOBALS =
     foldl (\<lambda>d x. dict_insert d (builtin_name x) (PBuiltin x)) [] SAFE_GLOBALS_LIST"

record fold_state =
  scopes_visible :: "string set list"
  scopes_constants :: "(string \<rightharpoonup> pyval) list"
  constants :: "string set"

definition OptimizeConstantFolding_init :: "string set \<Rightarrow> fold_state" where
  "OptimizeConstantFolding_init INITIAL_SCOPE_keys =
     \<lparr>scopes_visible = [INITIAL_SCOPE_keys - set (map fst SAFE_GLOBALS)],
      scopes_constants = [Map.empty],
      constants = {}\<rparr>"

definition enter_scope :: "fold_state \<Rightarrow> fold_state" where
  "enter_scope st =
     st\<lparr>scopes_visible := scopes_visible st @ [{}],
        scopes_constants := scopes_constants st @ [Map.empty]\<rparr>"

definition add_var_visible :: "string \<Rightarrow> fold_state \<Rightarrow> exn + fold_state" where
  "add_var_visible var st =
     (if scopes_visible st = [] then Inl (Exc IndexError)
      else Inr (st\<lparr>scopes_visible :=
                  butlast (scopes_visible st) @ [insert var (last (scopes_visible st))]\<rparr>))"

definition add_vars_visible :: "string set \<Rightarrow> fold_state \<Rightarrow> exn + fold_state" where
  "add_vars_visible var st =
     (if scopes_visible st = [] then Inl (Exc IndexError)
      else Inr (st\<lparr>scopes_visible :=
                  butlast (scopes_visible st) @ [last (scopes_visible st) \<union> var]\<rparr>))"

definition add_constant :: "string \<Rightarrow> pyval \<Rightarrow> fold_state \<Rightarrow> exn + fold_state" where
  "add_constant var val st =
     (if scopes_constants st = [] then Inl (Exc IndexError)
      else Inr (st\<lparr>scopes_constants :=
                  butlast (scopes_constants st) @ [(last (scopes_constants st))(var \<mapsto> val)]\<rparr>))"

definition visible_vars :: "fold_state \<Rightarrow> string set" where
  "visible_vars st = foldl (\<union>) {} (scopes_visible st)"

definition constant_vars :: "fold_state \<Rightarrow> (string \<rightharpoonup> pyval)" where
  "constant_vars st = foldl (++) Map.empty (scopes_constants st)"

definition exit_scope :: "fold_state \<Rightarrow> exn + fold_state" where
  "exit_scope st =
     (if scopes_visible st = [] then Inl (Exc IndexError)
      else if scopes_constants st = [] then Inl (Exc IndexError)
      else Inr (st\<lparr>scopes_visible := butlast (scopes_visible st),
                   scopes_constants := butlast (scopes_constants st)\<rparr>))"

text \<open>
  \<open>non_overwritten_globals\<close>: the comprehension over \<open>SAFE_GLOBALS.items()\<close>; the result is
  handed to the host as a mapping.
\<close>

definition non_overwritten_globals :: "fold_state \<Rightarrow> (string \<rightharpoonup> pyval)" where
  "non_overwritten_globals st =
     (let overwritten_vars = visible_vars st in
      map_of (map (\<lambda>(k, v). (k, if k \<notin> overwritten_vars then v else PErr)) SAFE_GLOBALS))"


text \<open>
  The host interpreter: \<open>unparse\<close> on statements and expressions, and \<open>exec\<close>/\<open>eval\<close> of a
  source text under a globals and a locals dictionary. \<open>exec\<close> returns both dictionaries as
  it leaves them.
\<close>

record host =
  unparse_stmt :: "stmt \<Rightarrow> string"
  unparse_expr :: "expr \<Rightarrow> string"
  py_exec :: "string \<Rightarrow> (string \<rightharpoonup> pyval) \<Rightarrow> (string \<rightharpoonup> pyval)
                \<Rightarrow> exn + ((string \<rightharpoonup> pyval) \<times> (string \<rightharpoonup> pyval))"
  py_eval :: "string \<Rightarrow> (string \<rightharpoonup> pyval) \<Rightarrow> (string \<rightharpoonup> pyval) \<Rightarrow> exn + pyval"

definition OptimizeConstantFolding_step :: string where
  "OptimizeConstantFolding_step = ''Constant folding''"

fun span_of :: "expr \<Rightarrow> span" where
  "span_of (Constant sp _) = sp"
| "span_of (Name sp _ _) = sp"
| "span_of (BinOp sp _ _ _) = sp"
| "span_of (UnaryOp sp _ _) = sp"
| "span_of (BoolOp sp _ _) = sp"
| "span_of (Compare sp _ _ _) = sp"
| "span_of (Call sp _ _ _) = sp"
| "span_of (IfExp sp _ _ _) = sp"
| "span_of (Attribute sp _ _ _) = sp"
| "span_of (Subscript sp _ _ _) = sp"
| "span_of (List_expr sp _ _) = sp"
| "span_of (Tuple_expr sp _ _) = sp"
| "span_of (Dict_expr sp _ _) = sp"

fun is_Constant :: "expr \<Rightarrow> bool" where
  "is_Constant (Constant _ _) = True"
| "is_Constant _ = False"

text \<open>
  \<open>OptimizeConstantFolding.generic_visit\<close> on an expression, after \<open>super().generic_visit\<close>
  has visited the children. \<open>Constant(node_eval, None)\<close> followed by \<open>copy_location\<close> gives
  the new constant the span of \<open>node\<close>.
\<close>

definition fold_visited :: "host \<Rightarrow> fold_state \<Rightarrow> expr \<Rightarrow> exn + expr" where
  "fold_visited h st node =
     (if is_Constant node then Inr node
      else
        let node_source = unparse_expr h node in
        if str_contains ''print('' node_source then Inr node
        else
          (case py_eval h node_source (non_overwritten_globals st) (constant_vars st) of
             Inl e \<Rightarrow> if is_Exception e then Inr node else Inl e
           | Inr node_eval \<Rightarrow>
               if list_ex (isinstance node_eval) (ACCEPTED_ATOMIC_TYPES @ [T_list, T_dict])
               then Inr (Constant (span_of node) node_eval)
               else Inr node))"

fun visit_expr :: "host \<Rightarrow> fold_state \<Rightarrow> expr \<Rightarrow> exn + expr"
  and generic_visit_expr :: "host \<Rightarrow> fold_state \<Rightarrow> expr \<Rightarrow> exn + expr"
  and NodeTransformer_generic_visit_expr :: "host \<Rightarrow> fold_state \<Rightarrow> expr \<Rightarrow> exn + expr"
  and visit_exprs :: "host \<Rightarrow> fold_state \<Rightarrow> expr list \<Rightarrow> exn + expr list"
  and visit_opt_exprs :: "host \<Rightarrow> fold_state \<Rightarrow> expr option list \<Rightarrow> exn + expr option list"
  and visit_keywords ::
    "host \<Rightarrow> fold_state \<Rightarrow> (string option \<times> expr) list \<Rightarrow> exn + (string option \<times> expr) list"
  where
  "visit_expr h st e =
     CompilingNodeTransformer_visit OptimizeConstantFolding_step (ExprNode e) (generic_visit_expr h st e)"
| "generic_visit_expr h st e =
     (case NodeTransformer_generic_visit_expr h st e of
        Inl x \<Rightarrow> Inl x
      | Inr node \<Rightarrow> fold_visited h st node)"
| "NodeTransformer_generic_visit_expr h st (Constant sp v) = Inr (Constant sp v)"
| "NodeTransformer_generic_visit_expr h st (Name sp x c) = Inr (Name sp x c)"
| "NodeTransformer_generic_visit_expr h st (BinOp sp l op r) =
     (case visit_expr h st l of
        Inl x \<Rightarrow> Inl x
      | Inr l' \<Rightarrow>
          (case visit_expr h st r of
             Inl x \<Rightarrow> Inl x
           | Inr r' \<Rightarrow> Inr (BinOp sp l' op r')))"
| "NodeTransformer_generic_visit_expr h st (UnaryOp sp op v) =
     (case visit_expr h st v of
        Inl x \<Rightarrow> Inl x
      | Inr v' \<Rightarrow> Inr (UnaryOp sp op v'))"
| "NodeTransformer_generic_visit_expr h st (BoolOp sp op vs) =
     (case visit_exprs h st vs of
        Inl x \<Rightarrow> Inl x
      | Inr vs' \<Rightarrow> Inr (BoolOp sp op vs'))"
| "NodeTransformer_generic_visit_expr h st (Compare sp l ops cs) =
     (case visit_expr h st l of
        Inl x \<Rightarrow> Inl x
      | Inr l' \<Rightarrow>
          (case visit_exprs h st cs of
             Inl x \<Rightarrow> Inl x
           | Inr cs' \<Rightarrow> Inr (Compare sp l' ops cs')))"
| "NodeTransformer_generic_visit_expr h st (Call sp f as ks) =
     (case visit_expr h st f of
        Inl x \<Rightarrow> Inl x
      | Inr f' \<Rightarrow>
          (case visit_exprs h st as of
             Inl x \<Rightarrow> Inl x
           | Inr as' \<Rightarrow>
               (case visit_keywords h st ks of
                  Inl x \<Rightarrow> Inl x
                | Inr ks' \<Rightarrow> Inr (Call sp f' as' ks'))))"
| "NodeTransformer_generic_visit_expr h st (IfExp sp t b oe) =
     (case visit_expr h st t of
        Inl x \<Rightarrow> Inl x
      | Inr t' \<Rightarrow>
          (case visit_expr h st b of
             Inl x \<Rightarrow> Inl x
           | Inr b' \<Rightarrow>
               (case visit_expr h st oe of
                  Inl x \<Rightarrow> Inl x
                | Inr oe' \<Rightarrow> Inr (IfExp sp t' b' oe'))))"
| "NodeTransformer_generic_visit_expr h st (Attribute sp v a c) =
     (case visit_expr h st v of
        Inl x \<Rightarrow> Inl x
      | Inr v' \<Rightarrow> Inr (Attribute sp v' a c))"
| "NodeTransformer_generic_visit_expr h st (Subscript sp v sl c) =
     (case visit_expr h st v of
        Inl x \<Rightarrow> Inl x
      | Inr v' \<Rightarrow>
          (case visit_expr h st sl of
             Inl x \<Rightarrow> Inl x
           | Inr sl' \<Rightarrow> Inr (Subscript sp v' sl' c)))"
| "NodeTransformer_generic_visit_expr h st (List_expr sp es c) =
     (case visit_exprs h st es of
        Inl x \<Rightarrow> Inl x
      | Inr es' \<Rightarrow> Inr (List_expr sp es' c))"
| "NodeTransformer_generic_visit_expr h st (Tuple_expr sp es c) =
     (case visit_exprs h st es of
        Inl x \<Rightarrow> Inl x
      | Inr es' \<Rightarrow> Inr (Tuple_expr sp es' c))"
| "NodeTransformer_generic_visit_expr h st (Dict_expr sp ks vs) =
     (case visit_opt_exprs h st ks of
        Inl x \<Rightarrow> Inl x
      | Inr ks' \<Rightarrow>
          (case visit_exprs h st vs of
             Inl x \<Rightarrow> Inl x
           | Inr vs' \<Rightarrow> Inr (Dict_expr sp ks' vs')))"
| "visit_exprs h st [] = Inr []"
| "visit_exprs h st (e # es) =
     (case visit_expr h st e of
        Inl x \<Rightarrow> Inl x
      | Inr e' \<Rightarrow>
          (case visit_exprs h st es of
             Inl x \<Rightarrow> Inl x
           | Inr es' \<Rightarrow> Inr (e' # es')))"
| "visit_opt_exprs h st [] = Inr []"
| "visit_opt_exprs h st (None # es) =
     (case visit_opt_exprs h st es of
        Inl x \<Rightarrow> Inl x
      | Inr es' \<Rightarrow> Inr (None # es'))"
| "visit_opt_exprs h st (Some e # es) =
     (case visit_expr h st e of
        Inl x \<Rightarrow> Inl x
      | Inr e' \<Rightarrow>
          (case visit_opt_exprs h st es of
             Inl x \<Rightarrow> Inl x
           | Inr es' \<Rightarrow> Inr (Some e' # es')))"
| "visit_keywords h st [] = Inr []"
| "visit_keywords h st ((k, v) # ks) =
     (case CompilingNodeTransformer_visit OptimizeConstantFolding_step (KeywordNode (k, v))
             (case visit_expr h st v of Inl x \<Rightarrow> Inl x | Inr v' \<Rightarrow> Inr (k, v')) of
        Inl x \<Rightarrow> Inl x
      | Inr kw' \<Rightarrow>
          (case visit_keywords h st ks of
             Inl x \<Rightarrow> Inl x
           | Inr ks' \<Rightarrow> Inr (kw' # ks')))"


subsection \<open>The two collectors\<close>

text \<open>
  \<open>generic_visit\<close> of a node visitor over an expression, for a visitor whose only expression
  method is \<open>visit_Name\<close> and acts on names in \<open>Store\<close> context: \<open>on_store\<close> is what
  \<open>visit_Name\<close> does to the visitor's \<open>vars\<close>. Children are visited in field order.
  No method of the two collectors raises, so their visits are total functions and the
  wrapper of \<open>CompilingNodeVisitor\<close> leaves their results as they are.
\<close>

fun NodeVisitor_expr :: "(string \<Rightarrow> 's \<Rightarrow> 's) \<Rightarrow> expr \<Rightarrow> 's \<Rightarrow> 's"
  and NodeVisitor_exprs :: "(string \<Rightarrow> 's \<Rightarrow> 's) \<Rightarrow> expr list \<Rightarrow> 's \<Rightarrow> 's"
  and NodeVisitor_opt_exprs :: "(string \<Rightarrow> 's \<Rightarrow> 's) \<Rightarrow> expr option list \<Rightarrow> 's \<Rightarrow> 's"
  and NodeVisitor_keywords ::
    "(string \<Rightarrow> 's \<Rightarrow> 's) \<Rightarrow> (string option \<times> expr) list \<Rightarrow> 's \<Rightarrow> 's"
  where
  "NodeVisitor_expr on_store (Name sp x c) vars = (if c = Store then on_store x vars else vars)"
| "NodeVisitor_expr on_store (Constant sp v) vars = vars"
| "NodeVisitor_expr on_store (BinOp sp l op r) vars =
     NodeVisitor_expr on_store r (NodeVisitor_expr on_store l vars)"
| "NodeVisitor_expr on_store (UnaryOp sp op v) vars = NodeVisitor_expr on_store v vars"
| "NodeVisitor_expr on_store (BoolOp sp op vs) vars = NodeVisitor_exprs on_store vs vars"
| "NodeVisitor_expr on_store (Compare sp l ops cs) vars =
     NodeVisitor_exprs on_store cs (NodeVisitor_expr on_store l vars)"
| "NodeVisitor_expr on_store (Call sp f as ks) vars =
     NodeVisitor_keywords on_store ks
       (NodeVisitor_exprs on_store as (NodeVisitor_expr on_store f vars))"
| "NodeVisitor_expr on_store (IfExp sp t b oe) vars =
     NodeVisitor_expr on_store oe
       (NodeVisitor_expr on_store b (NodeVisitor_expr on_store t vars))"
| "NodeVisitor_expr on_store (Attribute sp v a c) vars = NodeVisitor_expr on_store v vars"
| "NodeVisitor_expr on_store (Subscript sp v sl c) vars =
     NodeVisitor_expr on_store sl (NodeVisitor_expr on_store v vars)"
| "NodeVisitor_expr on_store (List_expr sp es c) vars = NodeVisitor_exprs on_store es vars"
| "NodeVisitor_expr on_store (Tuple_expr sp es c) vars = NodeVisitor_exprs on_store es vars"
| "NodeVisitor_expr on_store (Dict_expr sp ks vs) vars =
     NodeVisitor_exprs on_store vs (NodeVisitor_opt_exprs on_store ks vars)"
| "NodeVisitor_exprs on_store [] vars = vars"
| "NodeVisitor_exprs on_store (e # es) vars =
     NodeVisitor_exprs on_store es (NodeVisitor_expr on_store e vars)"
| "NodeVisitor_opt_exprs on_store [] vars = vars"
| "NodeVisitor_opt_exprs on_store (None # es) vars = NodeVisitor_opt_exprs on_store es vars"
| "NodeVisitor_opt_exprs on_store (Some e # es) vars =
     NodeVisitor_opt_exprs on_store es (NodeVisitor_expr on_store e vars)"
| "NodeVisitor_keywords on_store [] vars = vars"
| "NodeVisitor_keywords on_store ((k, v) # ks) vars =
     NodeVisitor_keywords on_store ks (NodeVisitor_expr on_store v vars)"

fun NodeVisitor_opt_expr :: "(string \<Rightarrow> 's \<Rightarrow> 's) \<Rightarrow> expr option \<Rightarrow> 's \<Rightarrow> 's" where
  "NodeVisitor_opt_expr on_store None vars = vars"
| "NodeVisitor_opt_expr on_store (Some e) vars = NodeVisitor_expr on_store e vars"

text \<open>\<open>generic_visit\<close> of an \<open>arguments\<close> node: each \<open>arg\<close> (its annotation), then the defaults.\<close>

fun NodeVisitor_args :: "(string \<Rightarrow> 's \<Rightarrow> 's) \<Rightarrow> py_arg list \<Rightarrow> 's \<Rightarrow> 's" where
  "NodeVisitor_args on_store [] vars = vars"
| "NodeVisitor_args on_store (Arg a ann # as) vars =
     NodeVisitor_args on_store as (NodeVisitor_opt_expr on_store ann vars)"

fun NodeVisitor_arguments :: "(string \<Rightarrow> 's \<Rightarrow> 's) \<Rightarrow> arguments \<Rightarrow> 's \<Rightarrow> 's" where
  "NodeVisitor_arguments on_store (Arguments as ds) vars =
     NodeVisitor_exprs on_store ds (NodeVisitor_args on_store as vars)"

text \<open>\<open>ShallowNameDefCollector\<close>: \<open>self.vars.add(node.id)\<close> on a stored name.\<close>

fun ShallowNameDefCollector_visit :: "stmt \<Rightarrow> string set \<Rightarrow> string set"
  and ShallowNameDefCollector_visits :: "stmt list \<Rightarrow> string set \<Rightarrow> string set" where
  "ShallowNameDefCollector_visit (FunctionDef name as body returns) vars = insert name vars"
| "ShallowNameDefCollector_visit (ClassDef name bases body) vars = insert name vars"
| "ShallowNameDefCollector_visit (Return v) vars = NodeVisitor_opt_expr insert v vars"
| "ShallowNameDefCollector_visit (Assign targets v) vars =
     NodeVisitor_expr insert v (NodeVisitor_exprs insert targets vars)"
| "ShallowNameDefCollector_visit (AnnAssign target ann v) vars =
     NodeVisitor_opt_expr insert v
       (NodeVisitor_expr insert ann (NodeVisitor_expr insert target vars))"
| "ShallowNameDefCollector_visit (For target iter body orelse) vars =
     ShallowNameDefCollector_visits orelse
       (ShallowNameDefCollector_visits body
          (NodeVisitor_expr insert iter (NodeVisitor_expr insert target vars)))"
| "ShallowNameDefCollector_visit (While test body orelse) vars =
     ShallowNameDefCollector_visits orelse
       (ShallowNameDefCollector_visits body (NodeVisitor_expr insert test vars))"
| "ShallowNameDefCollector_visit (If_stmt test body orelse) vars =
     ShallowNameDefCollector_visits orelse
       (ShallowNameDefCollector_visits body (NodeVisitor_expr insert test vars))"
| "ShallowNameDefCollector_visit (Assert test msg) vars =
     NodeVisitor_opt_expr insert msg (NodeVisitor_expr insert test vars)"
| "ShallowNameDefCollector_visit (Import names) vars = vars"
| "ShallowNameDefCollector_visit (ImportFrom m names) vars = vars"
| "ShallowNameDefCollector_visit (Expr v) vars = NodeVisitor_expr insert v vars"
| "ShallowNameDefCollector_visit Pass vars = vars"
| "ShallowNameDefCollector_visits [] vars = vars"
| "ShallowNameDefCollector_visits (s # ss) vars =
     ShallowNameDefCollector_visits ss (ShallowNameDefCollector_visit s vars)"

text \<open>\<open>self.vars[k] += 1\<close> on a \<open>defaultdict(int)\<close>: a missing key counts as 0.\<close>

definition bump :: "string \<Rightarrow> (string \<times> nat) list \<Rightarrow> (string \<times> nat) list" where
  "bump k vars = dict_insert vars k ((case map_of vars k of None \<Rightarrow> 0 | Some i \<Rightarrow> i) + 1)"

text \<open>
  \<open>DefinedTimesVisitor\<close>. \<open>visit_For\<close> and \<open>visit_If\<close> return at once; \<open>visit_FunctionDef\<close>
  counts the name, runs \<open>generic_visit\<close> on \<open>node.args\<close> and then on the node (its
  arguments again, its body, its return annotation). Every other statement, \<open>While\<close>
  included, is visited by \<open>generic_visit\<close>.
\<close>

fun DefinedTimesVisitor_visit :: "stmt \<Rightarrow> (string \<times> nat) list \<Rightarrow> (string \<times> nat) list"
  and DefinedTimesVisitor_visits ::
    "stmt list \<Rightarrow> (string \<times> nat) list \<Rightarrow> (string \<times> nat) list" where
  "DefinedTimesVisitor_visit (For target iter body orelse) vars = vars"
| "DefinedTimesVisitor_visit (If_stmt test body orelse) vars = vars"
| "DefinedTimesVisitor_visit (ClassDef name bases body) vars = bump name vars"
| "DefinedTimesVisitor_visit (FunctionDef name as body returns) vars =
     NodeVisitor_opt_expr bump returns
       (DefinedTimesVisitor_visits body
          (NodeVisitor_arguments bump as
             (NodeVisitor_arguments bump as (bump name vars))))"
| "DefinedTimesVisitor_visit (Return v) vars = NodeVisitor_opt_expr bump v vars"
| "DefinedTimesVisitor_visit (Assign targets v) vars =
     NodeVisitor_expr bump v (NodeVisitor_exprs bump targets vars)"
| "DefinedTimesVisitor_visit (AnnAssign target ann v) vars =
     NodeVisitor_opt_expr bump v
       (NodeVisitor_expr bump ann (NodeVisitor_expr bump target vars))"
| "DefinedTimesVisitor_visit (While test body orelse) vars =
     DefinedTimesVisitor_visits orelse
       (DefinedTimesVisitor_visits body (NodeVisitor_expr bump test vars))"
| "DefinedTimesVisitor_visit (Assert test msg) vars =
     NodeVisitor_opt_expr bump msg (NodeVisitor_expr bump test vars)"
| "DefinedTimesVisitor_visit (Import names) vars = vars"
| "DefinedTimesVisitor_visit (ImportFrom m names) vars = vars"
| "DefinedTimesVisitor_visit (Expr v) vars = NodeVisitor_expr bump v vars"
| "DefinedTimesVisitor_visit Pass vars = vars"
| "DefinedTimesVisitor_visits [] vars = vars"
| "DefinedTimesVisitor_visits (s # ss) vars =
     DefinedTimesVisitor_visits ss (DefinedTimesVisitor_visit s vars)"

text \<open>
  The single-assignment set of \<open>visit_Module\<close>:
  \<open>{c for c, i in constants.items() if i == 1}\<close> over the counts of the whole module.
\<close>

definition single_assignment_set :: "module \<Rightarrow> string set" where
  "single_assignment_set m =
     (case m of Module body \<Rightarrow>
        set (map fst (filter (\<lambda>(c, i). i = 1) (DefinedTimesVisitor_visits body []))))"


subsection \<open>\<open>OptimizeConstantFolding\<close>: the statement visitors\<close>

text \<open>
  \<open>n in self.constants\<close> for an element \<open>n\<close> of \<open>node.names\<close>: \<open>n\<close> is an \<open>alias\<close> object,
  the set holds strings, and an \<open>alias\<close> compares by identity, so the test is false.
\<close>

definition alias_in_constants :: "py_alias \<Rightarrow> string set \<Rightarrow> bool" where
  "alias_in_constants n cs = False"

text \<open>
  \<open>visit_Import\<close>. The \<open>except\<close> clause is bare, so it catches every exception of \<open>exec\<close>;
  the \<open>else\<close> clause is outside its protection. The method has no \<open>return\<close>: its result
  is \<open>None\<close>.
\<close>

definition visit_Import ::
  "host \<Rightarrow> fold_state \<Rightarrow> py_alias list \<Rightarrow> exn + (stmt option \<times> fold_state)" where
  "visit_Import h st names =
     (if list_all (\<lambda>n. alias_in_constants n (constants st)) names then
        (let g = non_overwritten_globals st;
             l = constant_vars st;
             g = g ++ l;
             new_l = Map.empty
         in case py_exec h (unparse_stmt h (Import names)) g new_l of
              Inl e \<Rightarrow> Inr (None, st)
            | Inr (g', new_l') \<Rightarrow>
                if scopes_constants st = [] then Inl (Exc IndexError)
                else Inr (None,
                       st\<lparr>scopes_constants :=
                            butlast (scopes_constants st) @ [last (scopes_constants st) ++ new_l']\<rparr>))
      else Inr (None, st))"

text \<open>\<open>visit_ClassDef\<close>: \<open>exec\<close> is not guarded, and the body is not visited.\<close>

definition visit_ClassDef ::
  "host \<Rightarrow> fold_state \<Rightarrow> string \<Rightarrow> expr list \<Rightarrow> stmt list
     \<Rightarrow> exn + (stmt option \<times> fold_state)" where
  "visit_ClassDef h st name bases body =
     (let node = ClassDef name bases body in
      if name \<in> constants st then
        (case py_exec h (unparse_stmt h node) (non_overwritten_globals st) (constant_vars st) of
           Inl e \<Rightarrow> Inl e
         | Inr (g', l') \<Rightarrow>
             (case l' name of
                None \<Rightarrow> Inl (Exc (KeyError name))
              | Some v \<Rightarrow>
                  (case add_constant name v st of
                     Inl e \<Rightarrow> Inl e
                   | Inr st' \<Rightarrow> Inr (Some node, st'))))
      else Inr (Some node, st))"

text \<open>
  \<open>visit_Assign\<close>: \<open>exec\<close> runs under \<open>try\<close> with a bare \<open>except: pass\<close>; on success the
  \<open>else\<close> clause reads the target from the locals \<open>l\<close>.
\<close>

definition visit_Assign ::
  "host \<Rightarrow> fold_state \<Rightarrow> expr list \<Rightarrow> expr \<Rightarrow> exn + (stmt option \<times> fold_state)" where
  "visit_Assign h st targets val =
     (let node = Assign targets val in
      case targets of
        [Name sp target_id ctx] \<Rightarrow>
          (case (if target_id \<in> constants st then
                   (case py_exec h (unparse_stmt h node)
                           (non_overwritten_globals st) (constant_vars st) of
                      Inl e \<Rightarrow> Inr st
                    | Inr (g', l') \<Rightarrow>
                        (case l' target_id of
                           None \<Rightarrow> Inl (Exc (KeyError target_id))
                         | Some v \<Rightarrow> add_constant target_id v st))
                 else Inr st) of
             Inl e \<Rightarrow> Inl e
           | Inr st' \<Rightarrow>
               (case visit_expr h st' val of
                  Inl e \<Rightarrow> Inl e
                | Inr val' \<Rightarrow> Inr (Some (Assign targets val'), st')))
      | _ \<Rightarrow> Inr (Some node, st))"

text \<open>
  \<open>visit_AnnAssign\<close>: \<open>exec\<close> is not guarded, and the target is read from the globals \<open>g\<close>.
  \<open>self.visit(node.value)\<close> on a missing value is \<open>visit(None)\<close>, whose \<open>generic_visit\<close>
  raises \<open>AttributeError\<close>.
\<close>

definition visit_AnnAssign ::
  "host \<Rightarrow> fold_state \<Rightarrow> expr \<Rightarrow> expr \<Rightarrow> expr option \<Rightarrow> exn + (stmt option \<times> fold_state)" where
  "visit_AnnAssign h st target ann val =
     (let node = AnnAssign target ann val in
      case target of
        Name sp target_id ctx \<Rightarrow>
          (case (if target_id \<in> constants st then
                   (case py_exec h (unparse_stmt h node)
                           (non_overwritten_globals st) (constant_vars st) of
                      Inl e \<Rightarrow> Inl e
                    | Inr (g', l') \<Rightarrow>
                        (case g' target_id of
                           None \<Rightarrow> Inl (Exc (KeyError target_id))
                         | Some v \<Rightarrow> add_constant target_id v st))
                 else Inr st) of
             Inl e \<Rightarrow> Inl e
           | Inr st' \<Rightarrow>
               (case (case val of
                        None \<Rightarrow>
                          CompilingNodeTransformer_visit OptimizeConstantFolding_step NoneNode
                            (Inl (Exc AttributeError))
                      | Some v \<Rightarrow> visit_expr h st' v) of
                  Inl e \<Rightarrow> Inl e
                | Inr val' \<Rightarrow> Inr (Some (AnnAssign target ann (Some val')), st')))
      | _ \<Rightarrow> Inr (Some node, st))"

fun visit_opt_expr :: "host \<Rightarrow> fold_state \<Rightarrow> expr option \<Rightarrow> exn + expr option" where
  "visit_opt_expr h st None = Inr None"
| "visit_opt_expr h st (Some e) =
     (case visit_expr h st e of Inl x \<Rightarrow> Inl x | Inr e' \<Rightarrow> Inr (Some e'))"

text \<open>Visiting an \<open>arguments\<close> node and its \<open>arg\<close> nodes (no method of their own).\<close>

fun visit_args :: "host \<Rightarrow> fold_state \<Rightarrow> py_arg list \<Rightarrow> exn + py_arg list" where
  "visit_args h st [] = Inr []"
| "visit_args h st (Arg a ann # as) =
     (case CompilingNodeTransformer_visit OptimizeConstantFolding_step (ArgNode (Arg a ann))
             (case visit_opt_expr h st ann of Inl x \<Rightarrow> Inl x | Inr ann' \<Rightarrow> Inr (Arg a ann')) of
        Inl x \<Rightarrow> Inl x
      | Inr a' \<Rightarrow>
          (case visit_args h st as of Inl x \<Rightarrow> Inl x | Inr as' \<Rightarrow> Inr (a' # as')))"

fun visit_arguments :: "host \<Rightarrow> fold_state \<Rightarrow> arguments \<Rightarrow> exn + arguments" where
  "visit_arguments h st (Arguments as ds) =
     CompilingNodeTransformer_visit OptimizeConstantFolding_step (ArgumentsNode (Arguments as ds))
       (case visit_args h st as of
          Inl x \<Rightarrow> Inl x
        | Inr as' \<Rightarrow>
            (case visit_exprs h st ds of
               Inl x \<Rightarrow> Inl x
             | Inr ds' \<Rightarrow> Inr (Arguments as' ds')))"

fun arg_name :: "py_arg \<Rightarrow> string" where
  "arg_name (Arg a ann) = a"

fun arguments_args :: "arguments \<Rightarrow> py_arg list" where
  "arguments_args (Arguments as ds) = as"

text \<open>
  \<open>visit\<close> on a statement dispatches to the \<open>visit_\<close> method of its class, or to
  \<open>generic_visit\<close>, under the wrapper of \<open>CompilingNodeTransformer\<close>. A statement list is
  rebuilt from the visits' results; a result \<open>None\<close> drops the statement.
\<close>

fun visit_stmt :: "host \<Rightarrow> fold_state \<Rightarrow> stmt \<Rightarrow> exn + (stmt option \<times> fold_state)"
  and visit_method :: "host \<Rightarrow> fold_state \<Rightarrow> stmt \<Rightarrow> exn + (stmt option \<times> fold_state)"
  and generic_visit_stmt :: "host \<Rightarrow> fold_state \<Rightarrow> stmt \<Rightarrow> exn + (stmt \<times> fold_state)"
  and visit_stmts :: "host \<Rightarrow> fold_state \<Rightarrow> stmt list \<Rightarrow> exn + (stmt list \<times> fold_state)"
  where
  "visit_stmt h st s =
     CompilingNodeTransformer_visit OptimizeConstantFolding_step (StmtNode s) (visit_method h st s)"
| "visit_method h st (FunctionDef name as body returns) =
     (case add_var_visible name st of
        Inl e \<Rightarrow> Inl e
      | Inr st1 \<Rightarrow>
     (case add_vars_visible (set (map arg_name (arguments_args as))) (enter_scope st1) of
        Inl e \<Rightarrow> Inl e
      | Inr st2 \<Rightarrow>
     (case add_vars_visible (ShallowNameDefCollector_visits body {}) st2 of
        Inl e \<Rightarrow> Inl e
      | Inr st3 \<Rightarrow>
     (case (if name \<in> constants st3 then
              (case py_exec h (unparse_stmt h (FunctionDef name as body returns))
                      (non_overwritten_globals st3) (constant_vars st3) of
                 Inl e \<Rightarrow> Inl e
               | Inr (g', l') \<Rightarrow>
                   (case l' name of
                      None \<Rightarrow> Inl (Exc (KeyError name))
                    | Some v \<Rightarrow> add_constant name v st3))
            else Inr st3) of
        Inl e \<Rightarrow> Inl e
      | Inr st4 \<Rightarrow>
     (case generic_visit_stmt h st4 (FunctionDef name as body returns) of
        Inl e \<Rightarrow> Inl e
      | Inr (res_node, st5) \<Rightarrow>
     (case exit_scope st5 of
        Inl e \<Rightarrow> Inl e
      | Inr st6 \<Rightarrow> Inr (Some res_node, st6)))))))"
| "visit_method h st (ClassDef name bases body) = visit_ClassDef h st name bases body"
| "visit_method h st (Import names) = visit_Import h st names"
| "visit_method h st (Assign targets v) = visit_Assign h st targets v"
| "visit_method h st (AnnAssign target ann v) = visit_AnnAssign h st target ann v"
| "visit_method h st s =
     (case generic_visit_stmt h st s of
        Inl e \<Rightarrow> Inl e
      | Inr (s', st') \<Rightarrow> Inr (Some s', st'))"
| "generic_visit_stmt h st (FunctionDef name as body returns) =
     (case visit_arguments h st as of
        Inl e \<Rightarrow> Inl e
      | Inr as' \<Rightarrow>
          (case visit_stmts h st body of
             Inl e \<Rightarrow> Inl e
           | Inr (body', st') \<Rightarrow>
               (case visit_opt_expr h st' returns of
                  Inl e \<Rightarrow> Inl e
                | Inr returns' \<Rightarrow> Inr (FunctionDef name as' body' returns', st'))))"
| "generic_visit_stmt h st (Return v) =
     (case visit_opt_expr h st v of Inl e \<Rightarrow> Inl e | Inr v' \<Rightarrow> Inr (Return v', st))"
| "generic_visit_stmt h st (For target iter body orelse) =
     (case visit_expr h st target of
        Inl e \<Rightarrow> Inl e
      | Inr target' \<Rightarrow>
          (case visit_expr h st iter of
             Inl e \<Rightarrow> Inl e
           | Inr iter' \<Rightarrow>
               (case visit_stmts h st body of
                  Inl e \<Rightarrow> Inl e
                | Inr (body', st') \<Rightarrow>
                    (case visit_stmts h st' orelse of
                       Inl e \<Rightarrow> Inl e
                     | Inr (orelse', st'') \<Rightarrow> Inr (For target' iter' body' orelse', st'')))))"
| "generic_visit_stmt h st (While test body orelse) =
     (case visit_expr h st test of
        Inl e \<Rightarrow> Inl e
      | Inr test' \<Rightarrow>
          (case visit_stmts h st body of
             Inl e \<Rightarrow> Inl e
           | Inr (body', st') \<Rightarrow>
               (case visit_stmts h st' orelse of
                  Inl e \<Rightarrow> Inl e
                | Inr (orelse', st'') \<Rightarrow> Inr (While test' body' orelse', st''))))"
| "generic_visit_stmt h st (If_stmt test body orelse) =
     (case visit_expr h st test of
        Inl e \<Rightarrow> Inl e
      | Inr test' \<Rightarrow>
          (case visit_stmts h st body of
             Inl e \<Rightarrow> Inl e
           | Inr (body', st') \<Rightarrow>
               (case visit_stmts h st' orelse of
                  Inl e \<Rightarrow> Inl e
                | Inr (orelse', st'') \<Rightarrow> Inr (If_stmt test' body' orelse', st''))))"
| "generic_visit_stmt h st (Assert test msg) =
     (case visit_expr h st test of
        Inl e \<Rightarrow> Inl e
      | Inr test' \<Rightarrow>
          (case visit_opt_expr h st msg of
             Inl e \<Rightarrow> Inl e
           | Inr msg' \<Rightarrow> Inr (Assert test' msg', st)))"
| "generic_visit_stmt h st (Expr v) =
     (case visit_expr h st v of Inl e \<Rightarrow> Inl e | Inr v' \<Rightarrow> Inr (Expr v', st))"
| "generic_visit_stmt h st s = Inr (s, st)"
| "visit_stmts h st [] = Inr ([], st)"
| "visit_stmts h st (s # ss) =
     (case visit_stmt h st s of
        Inl e \<Rightarrow> Inl e
      | Inr (r, st') \<Rightarrow>
          (case visit_stmts h st' ss of
             Inl e \<Rightarrow> Inl e
           | Inr (ss', st'') \<Rightarrow>
               Inr ((case r of None \<Rightarrow> ss' | Some s' \<Rightarrow> s' # ss'), st'')))"

text \<open>
  \<open>generic_visit_stmt\<close> is reached for function definitions and for the statements without
  a method of their own; of these, \<open>ImportFrom\<close> and \<open>Pass\<close> have no child that a visit
  changes. \<open>visit_Module\<close> follows, and \<open>OptimizeConstantFolding_visit\<close> is \<open>visit\<close> called
  on a module.
\<close>

definition visit_Module :: "host \<Rightarrow> fold_state \<Rightarrow> module \<Rightarrow> exn + (module \<times> fold_state)" where
  "visit_Module h st node =
     (case node of Module body \<Rightarrow>
        (case add_vars_visible (ShallowNameDefCollector_visits body {}) (enter_scope st) of
           Inl e \<Rightarrow> Inl e
         | Inr st1 \<Rightarrow>
             (case visit_stmts h (st1\<lparr>constants := single_assignment_set node\<rparr>) body of
                Inl e \<Rightarrow> Inl e
              | Inr (body', st2) \<Rightarrow>
                  (case exit_scope st2 of
                     Inl e \<Rightarrow> Inl e
                   | Inr st3 \<Rightarrow> Inr (Module body', st3)))))"

definition OptimizeConstantFolding_visit :: "host \<Rightarrow> fold_state \<Rightarrow> module \<Rightarrow> exn + (module \<times> fold_state)" where
  "OptimizeConstantFolding_visit h st node =
     CompilingNodeTransformer_visit OptimizeConstantFolding_step (ModuleNode node) (visit_Module h st node)"

subsection \<open>Example programs and hosts\<close>

definition at :: "nat \<Rightarrow> nat \<Rightarrow> nat \<Rightarrow> span" where
  "at line col end_col =
     \<lparr>lineno = line, col_offset = col, end_lineno = line, end_col_offset = end_col\<rparr>"

text \<open>
  \<^verbatim>\<open>def validator(c: bool) -> int:\<close> \<^verbatim>\<open>x = 1\<close>; \<^verbatim>\<open>if c: x = 2\<close>; \<^verbatim>\<open>return x\<close>,
  and the same with \<^verbatim>\<open>for i in xs: x = i\<close> in place of the conditional.
\<close>

definition write_in_branch :: module where
  "write_in_branch =
     Module
       [FunctionDef ''validator''
          (Arguments [Arg ''c'' (Some (Name (at 1 17 21) ''bool'' Load))] [])
          [Assign [Name (at 2 4 5) ''x'' Store] (Constant (at 2 8 9) (PInt 1)),
           If_stmt (Name (at 3 7 8) ''c'' Load)
             [Assign [Name (at 4 8 9) ''x'' Store] (Constant (at 4 12 13) (PInt 2))]
             [],
           Return (Some (Name (at 5 11 12) ''x'' Load))]
          (Some (Name (at 1 26 29) ''int'' Load))]"

definition write_in_loop :: module where
  "write_in_loop =
     Module
       [FunctionDef ''validator''
          (Arguments [Arg ''xs'' (Some (Name (at 1 18 22) ''list'' Load))] [])
          [Assign [Name (at 2 4 5) ''x'' Store] (Constant (at 2 8 9) (PInt 1)),
           For (Name (at 3 8 9) ''i'' Store) (Name (at 3 13 15) ''xs'' Load)
             [Assign [Name (at 4 8 9) ''x'' Store] (Name (at 4 12 13) ''i'' Load)]
             [],
           Return (Some (Name (at 5 11 12) ''x'' Load))]
          (Some (Name (at 1 27 30) ''int'' Load))]"

text \<open>
  \<^verbatim>\<open>def validator(n: int) -> int:\<close> \<^verbatim>\<open>while n > 0: x = n\<close>; \<^verbatim>\<open>return 0\<close>:
  the only write to \<open>x\<close> is inside the loop body.
\<close>

definition write_in_while :: module where
  "write_in_while =
     Module
       [FunctionDef ''validator''
          (Arguments [Arg ''n'' (Some (Name (at 1 17 20) ''int'' Load))] [])
          [While (Compare (at 2 10 15) (Name (at 2 10 11) ''n'' Load) [Gt]
                    [Constant (at 2 14 15) (PInt 0)])
             [Assign [Name (at 3 8 9) ''x'' Store] (Name (at 3 12 13) ''n'' Load)]
             [],
           Return (Some (Constant (at 4 11 12) (PInt 0)))]
          (Some (Name (at 1 25 28) ''int'' Load))]"

text \<open>
  \<^verbatim>\<open>def validator(a: int) -> int:\<close> \<^verbatim>\<open>x: int = a + 1\<close>; \<^verbatim>\<open>return x\<close>,
  and the same with the plain assignment \<^verbatim>\<open>x = a + 1\<close>.
\<close>

definition annotated_assignment :: module where
  "annotated_assignment =
     Module
       [FunctionDef ''validator''
          (Arguments [Arg ''a'' (Some (Name (at 1 17 20) ''int'' Load))] [])
          [AnnAssign (Name (at 2 4 5) ''x'' Store) (Name (at 2 7 10) ''int'' Load)
             (Some (BinOp (at 2 13 18) (Name (at 2 13 14) ''a'' Load) Add
                      (Constant (at 2 17 18) (PInt 1)))),
           Return (Some (Name (at 3 11 12) ''x'' Load))]
          (Some (Name (at 1 25 28) ''int'' Load))]"

definition plain_assignment :: module where
  "plain_assignment =
     Module
       [FunctionDef ''validator''
          (Arguments [Arg ''a'' (Some (Name (at 1 17 20) ''int'' Load))] [])
          [Assign [Name (at 2 4 5) ''x'' Store]
             (BinOp (at 2 8 13) (Name (at 2 8 9) ''a'' Load) Add
                (Constant (at 2 12 13) (PInt 1))),
           Return (Some (Name (at 3 11 12) ''x'' Load))]
          (Some (Name (at 1 25 28) ''int'' Load))]"

text \<open>
  A host in which the definition of \<open>validator\<close> executes, binding the function in the
  locals, and every other text raises \<open>NameError\<close>, as the parameter \<open>a\<close> is unknown when
  the pass runs.
\<close>

definition unbound_host :: host where
  "unbound_host =
     \<lparr>unparse_stmt = (\<lambda>s. case s of FunctionDef n _ _ _ \<Rightarrow> ''def '' @ n | _ \<Rightarrow> ''x = a + 1''),
      unparse_expr = (\<lambda>e. ''a''),
      py_exec = (\<lambda>src g l.
         if src = ''def validator''
         then Inr (g, l(''validator'' \<mapsto> PObject ''function validator''))
         else Inl (Exc NameError)),
      py_eval = (\<lambda>src g l. Inl (Exc NameError))\<rparr>"

text \<open>
  \<^verbatim>\<open>def validator(a: int) -> int:\<close> \<^verbatim>\<open>x: int = 5\<close>; \<^verbatim>\<open>return x\<close>, and a host whose
  \<open>exec\<close> succeeds on both statements and, as the host interpreter does when globals and
  locals are different dictionaries, binds the assigned name in the locals.
\<close>

definition annotated_constant :: module where
  "annotated_constant =
     Module
       [FunctionDef ''validator''
          (Arguments [Arg ''a'' (Some (Name (at 1 17 20) ''int'' Load))] [])
          [AnnAssign (Name (at 2 4 5) ''x'' Store) (Name (at 2 7 10) ''int'' Load)
             (Some (Constant (at 2 13 14) (PInt 5))),
           Return (Some (Name (at 3 11 12) ''x'' Load))]
          (Some (Name (at 1 25 28) ''int'' Load))]"

definition binding_host :: host where
  "binding_host =
     \<lparr>unparse_stmt = (\<lambda>s. case s of FunctionDef n _ _ _ \<Rightarrow> ''def '' @ n | _ \<Rightarrow> ''x: int = 5''),
      unparse_expr = (\<lambda>e. ''a''),
      py_exec = (\<lambda>src g l.
         if src = ''def validator''
         then Inr (g, l(''validator'' \<mapsto> PObject ''function validator''))
         else Inr (g, l(''x'' \<mapsto> PInt 5))),
      py_eval = (\<lambda>src g l. Inl (Exc NameError))\<rparr>"

subsection \<open>Predicates used in the theorems\<close>

text \<open>
  An \<open>Import\<close> statement somewhere in a statement, the bodies of class definitions
  included. \<^verbatim>\<open>from m import n\<close> is an \<open>ImportFrom\<close> node, another class of node, which
  \<open>visit_Import\<close> is not called on.
\<close>

fun contains_Import :: "stmt \<Rightarrow> bool" and contains_Import_list :: "stmt list \<Rightarrow> bool" where
  "contains_Import (Import names) = True"
| "contains_Import (ImportFrom m names) = False"
| "contains_Import (FunctionDef name as body returns) = contains_Import_list body"
| "contains_Import (ClassDef name bases body) = contains_Import_list body"
| "contains_Import (For target iter body orelse) =
     (contains_Import_list body \<or> contains_Import_list orelse)"
| "contains_Import (While test body orelse) =
     (contains_Import_list body \<or> contains_Import_list orelse)"
| "contains_Import (If_stmt test body orelse) =
     (contains_Import_list body \<or> contains_Import_list orelse)"
| "contains_Import (Return v) = False"
| "contains_Import (Assign targets v) = False"
| "contains_Import (AnnAssign target ann v) = False"
| "contains_Import (Assert test msg) = False"
| "contains_Import (Expr v) = False"
| "contains_Import Pass = False"
| "contains_Import_list [] = False"
| "contains_Import_list (s # ss) = (contains_Import s \<or> contains_Import_list ss)"

text \<open>
  An \<open>Import\<close> statement somewhere in a statement, but not inside the body of a class
  definition: the only difference from \<open>contains_Import\<close> is the equation for \<open>ClassDef\<close>.
\<close>

fun outside_classes_Import :: "stmt \<Rightarrow> bool"
  and outside_classes_Import_list :: "stmt list \<Rightarrow> bool" where
  "outside_classes_Import (Import names) = True"
| "outside_classes_Import (ImportFrom m names) = False"
| "outside_classes_Import (FunctionDef name as body returns) = outside_classes_Import_list body"
| "outside_classes_Import (ClassDef name bases body) = False"
| "outside_classes_Import (For target iter body orelse) =
     (outside_classes_Import_list body \<or> outside_classes_Import_list orelse)"
| "outside_classes_Import (While test body orelse) =
     (outside_classes_Import_list body \<or> outside_classes_Import_list orelse)"
| "outside_classes_Import (If_stmt test body orelse) =
     (outside_classes_Import_list body \<or> outside_classes_Import_list orelse)"
| "outside_classes_Import (Return v) = False"
| "outside_classes_Import (Assign targets v) = False"
| "outside_classes_Import (AnnAssign target ann v) = False"
| "outside_classes_Import (Assert test msg) = False"
| "outside_classes_Import (Expr v) = False"
| "outside_classes_Import Pass = False"
| "outside_classes_Import_list [] = False"
| "outside_classes_Import_list (s # ss) =
     (outside_classes_Import s \<or> outside_classes_Import_list ss)"

fun module_body :: "module \<Rightarrow> stmt list" where
  "module_body (Module body) = body"

text \<open>
  \<^verbatim>\<open>class A:\<close> \<^verbatim>\<open>import os\<close>, and a host whose \<open>exec\<close> defines the class.
\<close>

definition class_with_import :: module where
  "class_with_import = Module [ClassDef ''A'' [] [Import [Alias ''os'' None]]]"

definition class_host :: host where
  "class_host =
     \<lparr>unparse_stmt = (\<lambda>s. case s of ClassDef n _ _ \<Rightarrow> ''class '' @ n | _ \<Rightarrow> []),
      unparse_expr = (\<lambda>e. []),
      py_exec = (\<lambda>src g l.
         if src = ''class A'' then Inr (g, l(''A'' \<mapsto> PObject ''class A''))
         else Inl (Exc NameError)),
      py_eval = (\<lambda>src g l. Inl (Exc NameError))\<rparr>"

text \<open>
  The values the specification accepts for folding, in its words: one of the atomic types
  (integer, byte string, string, Boolean, unit) or a finite container (list, dict) of such
  values.
\<close>

fun spec_accepted :: "pyval \<Rightarrow> bool" where
  "spec_accepted (PInt _) = True"
| "spec_accepted (PStr _) = True"
| "spec_accepted (PBytes _) = True"
| "spec_accepted PNone = True"
| "spec_accepted (PBool _) = True"
| "spec_accepted (PList vs) = list_all spec_accepted vs"
| "spec_accepted (PDict kvs) =
     list_all (\<lambda>kv. spec_accepted (fst kv) \<and> spec_accepted (snd kv)) kvs"
| "spec_accepted _ = False"

text \<open>
  The expression \<^verbatim>\<open>[abs]\<close>, and a host that unparses and evaluates it and its element.
\<close>

definition list_of_abs :: expr where
  "list_of_abs = List_expr (at 1 0 5) [Name (at 1 1 4) ''abs'' Load] Load"

definition literal_host :: host where
  "literal_host =
     \<lparr>unparse_stmt = (\<lambda>s. []),
      unparse_expr = (\<lambda>e. case e of
          Name sp x c \<Rightarrow> x
        | List_expr sp [Name sp' x c'] c \<Rightarrow> ''['' @ x @ '']''
        | _ \<Rightarrow> []),
      py_exec = (\<lambda>src g l. Inl (Exc NameError)),
      py_eval = (\<lambda>src g l.
          if src = ''abs'' then
            (case (l ++ g) ''abs'' of None \<Rightarrow> Inl (Exc NameError) | Some v \<Rightarrow> Inr v)
          else if src = ''[abs]'' then
            (case (l ++ g) ''abs'' of None \<Rightarrow> Inl (Exc NameError) | Some v \<Rightarrow> Inr (PList [v]))
          else Inl (Exc NameError))\<rparr>"

section \<open>\<open>util.py\<close>: the built-in catalogue\<close>

text \<open>
  The IR is built with the combinators of the \<open>pluthon\<close> library and runs on the VM. Each
  combinator is embedded as the function it computes on VM values: \<open>plt.Lambda\<close> is a HOL
  abstraction over argument values, and a computation either yields a value or fails (the
  VM has one kind of failure). \<open>Ite\<close> fails on a condition that is not a Boolean; \<open>And(x, y)\<close>
  is \<open>Ite(x, y, Bool(False))\<close> and \<open>Or(x, y)\<close> is \<open>Ite(x, Bool(True), y)\<close>; \<open>FoldList(l, f, a)\<close>
  is the left fold of \<open>f\<close>, applied to accumulator and element, from the initial value \<open>a\<close>.
\<close>

datatype val = VInt int | VBool bool | VBytes "nat list" | VStr string | VUnit
  | VList "val list"

datatype vm_error = EvaluationFailure

type_synonym comp = "vm_error + val"

definition plt_Var :: "val \<Rightarrow> comp" where
  "plt_Var x = Inr x"

definition plt_Integer :: "int \<Rightarrow> comp" where
  "plt_Integer n = Inr (VInt n)"

definition plt_Bool :: "bool \<Rightarrow> comp" where
  "plt_Bool b = Inr (VBool b)"

definition plt_Ite :: "comp \<Rightarrow> comp \<Rightarrow> comp \<Rightarrow> comp" where
  "plt_Ite i t e =
     (case i of
        Inl x \<Rightarrow> Inl x
      | Inr (VBool b) \<Rightarrow> if b then t else e
      | Inr _ \<Rightarrow> Inl EvaluationFailure)"

definition plt_And :: "comp \<Rightarrow> comp \<Rightarrow> comp" where
  "plt_And x y = plt_Ite x y (plt_Bool False)"

definition plt_Or :: "comp \<Rightarrow> comp \<Rightarrow> comp" where
  "plt_Or x y = plt_Ite x (plt_Bool True) y"

definition plt_AddInteger :: "comp \<Rightarrow> comp \<Rightarrow> comp" where
  "plt_AddInteger x y =
     (case (x, y) of
        (Inr (VInt a), Inr (VInt b)) \<Rightarrow> Inr (VInt (a + b))
      | _ \<Rightarrow> Inl EvaluationFailure)"

definition plt_SubtractInteger :: "comp \<Rightarrow> comp \<Rightarrow> comp" where
  "plt_SubtractInteger x y =
     (case (x, y) of
        (Inr (VInt a), Inr (VInt b)) \<Rightarrow> Inr (VInt (a - b))
      | _ \<Rightarrow> Inl EvaluationFailure)"

definition plt_LessThanInteger :: "comp \<Rightarrow> comp \<Rightarrow> comp" where
  "plt_LessThanInteger x y =
     (case (x, y) of
        (Inr (VInt a), Inr (VInt b)) \<Rightarrow> Inr (VBool (a < b))
      | _ \<Rightarrow> Inl EvaluationFailure)"

definition plt_LengthOfByteString :: "comp \<Rightarrow> comp" where
  "plt_LengthOfByteString x =
     (case x of
        Inr (VBytes bs) \<Rightarrow> Inr (VInt (int (length bs)))
      | _ \<Rightarrow> Inl EvaluationFailure)"

fun fold_vm :: "(val \<Rightarrow> val \<Rightarrow> comp) \<Rightarrow> val list \<Rightarrow> val \<Rightarrow> comp" where
  "fold_vm f [] a = Inr a"
| "fold_vm f (x # xs) a = (case f a x of Inl e \<Rightarrow> Inl e | Inr a' \<Rightarrow> fold_vm f xs a')"

definition plt_FoldList :: "comp \<Rightarrow> (val \<Rightarrow> val \<Rightarrow> comp) \<Rightarrow> comp \<Rightarrow> comp" where
  "plt_FoldList l f a =
     (case (l, a) of
        (Inr (VList xs), Inr a0) \<Rightarrow> fold_vm f xs a0
      | _ \<Rightarrow> Inl EvaluationFailure)"

text \<open>The IR lambdas of \<open>PythonBuiltIn\<close> for \<open>all\<close>, \<open>any\<close>, \<open>abs\<close> and \<open>sum\<close>.\<close>

definition PythonBuiltIn_all :: "val \<Rightarrow> val \<Rightarrow> comp" where
  "PythonBuiltIn_all = (\<lambda>xs _.
     plt_FoldList (plt_Var xs)
       (\<lambda>x a. plt_And (plt_Var x) (plt_Var a))
       (plt_Integer 0))"

definition PythonBuiltIn_any :: "val \<Rightarrow> val \<Rightarrow> comp" where
  "PythonBuiltIn_any = (\<lambda>xs _.
     plt_FoldList (plt_Var xs)
       (\<lambda>x a. plt_Or (plt_Var x) (plt_Var a))
       (plt_Integer 0))"

definition PythonBuiltIn_abs :: "val \<Rightarrow> val \<Rightarrow> comp" where
  "PythonBuiltIn_abs = (\<lambda>x _.
     plt_Ite (plt_LessThanInteger (plt_Var x) (plt_Integer 0))
       (plt_SubtractInteger (plt_Integer 0) (plt_Var x))
       (plt_Var x))"

definition PythonBuiltIn_sum :: "val \<Rightarrow> val \<Rightarrow> comp" where
  "PythonBuiltIn_sum = (\<lambda>xs _.
     plt_FoldList (plt_Var xs)
       (\<lambda>a x. plt_AddInteger (plt_Var a) (plt_Var x))
       (plt_Integer 0))"

text \<open>
  Modelled from the spec: the type classes of \<open>typed_ast\<close>, which is not among the sources,
  after the table of types in the data model, under the names \<open>util.py\<close> uses.
\<close>

datatype Type =
    IntegerType
  | ByteStringType
  | StringType
  | BoolType
  | UnitType
  | ListType Type
  | MapType Type Type
  | RecordType int "(string \<times> Type) list"
  | SumType "Type list"
  | FunctionType "Type list" Type
  | PolymorphicFunctionType string
  | InstanceType Type

definition IntegerInstanceType :: Type where
  "IntegerInstanceType = InstanceType IntegerType"

definition ByteStringInstanceType :: Type where
  "ByteStringInstanceType = InstanceType ByteStringType"

definition BoolInstanceType :: Type where
  "BoolInstanceType = InstanceType BoolType"

definition StringInstanceType :: Type where
  "StringInstanceType = InstanceType StringType"

definition NoneInstanceType :: Type where
  "NoneInstanceType = InstanceType UnitType"

fun is_InstanceType :: "Type \<Rightarrow> bool" where
  "is_InstanceType (InstanceType _) = True"
| "is_InstanceType _ = False"

text \<open>\<open>Len.type_from_args\<close> and \<open>Len.impl_from_args\<close>.\<close>

definition Len_type_from_args :: "Type list \<Rightarrow> Type pyerr + Type" where
  "Len_type_from_args args =
     (if length args \<noteq> 1 then Inl (AssertionError ''len takes only one argument'')
      else if \<not> is_InstanceType (hd args)
        then Inl (AssertionError ''Can only determine length of instances'')
      else Inr (FunctionType args IntegerInstanceType))"

definition Len_impl_from_args :: "Type list \<Rightarrow> Type pyerr + (val \<Rightarrow> val \<Rightarrow> comp)" where
  "Len_impl_from_args args =
     (case args of
        [] \<Rightarrow> Inl IndexError
      | arg # _ \<Rightarrow>
          (case arg of
             InstanceType typ \<Rightarrow>
               if arg = ByteStringInstanceType then
                 Inr (\<lambda>x _. plt_LengthOfByteString (plt_Var x))
               else (case typ of
                  ListType _ \<Rightarrow>
                    Inr (\<lambda>x _.
                      plt_FoldList (plt_Var x)
                        (\<lambda>a _. plt_AddInteger (plt_Var a) (plt_Integer 1))
                        (plt_Integer 0))
                | _ \<Rightarrow> Inl (NotImplementedError arg))
           | _ \<Rightarrow> Inl (AssertionError ''Can only determine length of instances'')))"

datatype PythonBuiltIn = Builtin_all | Builtin_any | Builtin_abs | Builtin_breakpoint
  | Builtin_len | Builtin_print | Builtin_range | Builtin_sum

fun PythonBuiltInTypes :: "PythonBuiltIn \<Rightarrow> Type" where
  "PythonBuiltInTypes Builtin_all =
     InstanceType (FunctionType [InstanceType (ListType BoolInstanceType)] BoolInstanceType)"
| "PythonBuiltInTypes Builtin_any =
     InstanceType (FunctionType [InstanceType (ListType BoolInstanceType)] BoolInstanceType)"
| "PythonBuiltInTypes Builtin_abs =
     InstanceType (FunctionType [IntegerInstanceType] IntegerInstanceType)"
| "PythonBuiltInTypes Builtin_breakpoint = InstanceType (FunctionType [] NoneInstanceType)"
| "PythonBuiltInTypes Builtin_len = InstanceType (PolymorphicFunctionType ''Len'')"
| "PythonBuiltInTypes Builtin_print =
     InstanceType (FunctionType [StringInstanceType] NoneInstanceType)"
| "PythonBuiltInTypes Builtin_range =
     InstanceType
       (FunctionType [IntegerInstanceType] (InstanceType (ListType IntegerInstanceType)))"
| "PythonBuiltInTypes Builtin_sum =
     InstanceType
       (FunctionType [InstanceType (ListType IntegerInstanceType)] IntegerInstanceType)"

section \<open>Matching call arguments against parameters\<close>

text \<open>
  Modelled from the spec: the matching of a call's argument list against the callee's
  parameters in the inference pass (the pass is not among the sources; only its test
  \<open>test_keywords.py\<close> is). The rules of the specification: positional arguments fill
  parameters left to right; any parameter may be supplied by keyword; after the first
  keyword argument no positional argument may appear; duplicate assignment to a parameter
  is rejected; a parameter with no argument must have a default value; unknown keyword
  names are rejected. Code generation then applies the callee to the arguments in
  parameter order.
\<close>

datatype call_arg = Positional expr | Keyword string expr

datatype signature_error =
    KeywordAfterPositional
  | ArityMismatch
  | DuplicateKeyword string
  | UnknownKeyword string
  | MissingRequiredParameter string

text \<open>A parameter: its name and its optional default value.\<close>

type_synonym param = "string \<times> expr option"

fun positional_allowed :: "bool \<Rightarrow> call_arg list \<Rightarrow> bool" where
  "positional_allowed seen_keyword [] = True"
| "positional_allowed seen_keyword (Positional e # as) =
     (\<not> seen_keyword \<and> positional_allowed seen_keyword as)"
| "positional_allowed seen_keyword (Keyword k e # as) = positional_allowed True as"

fun fill_positional ::
  "param list \<Rightarrow> call_arg list \<Rightarrow> signature_error + (string \<times> expr option \<times> expr option) list"
  where
  "fill_positional [] (Positional e # as) = Inl ArityMismatch"
| "fill_positional ((p, d) # ps) (Positional e # as) =
     (case fill_positional ps as of
        Inl x \<Rightarrow> Inl x
      | Inr slots \<Rightarrow> Inr ((p, Some e, d) # slots))"
| "fill_positional ps as = Inr (map (\<lambda>(p, d). (p, None, d)) ps)"

fun fill_keyword ::
  "string \<Rightarrow> expr \<Rightarrow> (string \<times> expr option \<times> expr option) list
     \<Rightarrow> signature_error + (string \<times> expr option \<times> expr option) list" where
  "fill_keyword k e [] = Inl (UnknownKeyword k)"
| "fill_keyword k e ((p, v, d) # slots) =
     (if p = k then
        (case v of None \<Rightarrow> Inr ((p, Some e, d) # slots) | Some _ \<Rightarrow> Inl (DuplicateKeyword k))
      else
        (case fill_keyword k e slots of
           Inl x \<Rightarrow> Inl x
         | Inr slots' \<Rightarrow> Inr ((p, v, d) # slots')))"

fun fill_keywords ::
  "call_arg list \<Rightarrow> (string \<times> expr option \<times> expr option) list
     \<Rightarrow> signature_error + (string \<times> expr option \<times> expr option) list" where
  "fill_keywords [] slots = Inr slots"
| "fill_keywords (Positional e # as) slots = fill_keywords as slots"
| "fill_keywords (Keyword k e # as) slots =
     (case fill_keyword k e slots of
        Inl x \<Rightarrow> Inl x
      | Inr slots' \<Rightarrow> fill_keywords as slots')"

fun resolve_slots ::
  "(string \<times> expr option \<times> expr option) list \<Rightarrow> signature_error + expr list" where
  "resolve_slots [] = Inr []"
| "resolve_slots ((p, v, d) # slots) =
     (case (case v of Some e \<Rightarrow> Some e | None \<Rightarrow> d) of
        None \<Rightarrow> Inl (MissingRequiredParameter p)
      | Some e \<Rightarrow>
          (case resolve_slots slots of
             Inl x \<Rightarrow> Inl x
           | Inr es \<Rightarrow> Inr (e # es)))"

definition match_call_args :: "param list \<Rightarrow> call_arg list \<Rightarrow> signature_error + expr list" where
  "match_call_args ps as =
     (if \<not> positional_allowed False as then Inl KeywordAfterPositional
      else
        (case fill_positional ps as of
           Inl x \<Rightarrow> Inl x
         | Inr slots \<Rightarrow>
             (case fill_keywords as slots of
                Inl x \<Rightarrow> Inl x
              | Inr slots' \<Rightarrow> resolve_slots slots')))"

text \<open>
  Modelled from the spec: a call compiles to the left-associative application of the
  callee to the matched arguments, one parameter at a time, or is rejected.
\<close>

datatype call_ir = Callee expr | Apply call_ir expr

definition compile_call ::
  "expr \<Rightarrow> param list \<Rightarrow> call_arg list \<Rightarrow> signature_error + call_ir" where
  "compile_call f ps as =
     (case match_call_args ps as of
        Inl x \<Rightarrow> Inl x
      | Inr es \<Rightarrow> Inr (foldl Apply (Callee f) es))"

fun is_Positional :: "call_arg \<Rightarrow> bool" where
  "is_Positional (Positional _) = True"
| "is_Positional (Keyword _ _) = False"

text \<open>The arguments of the call \<^verbatim>\<open>simple_example(x=a, y=b, c)\<close>.\<close>

definition call_xa_yb_c :: "call_arg list" where
  "call_xa_yb_c =
     [Keyword ''x'' (Name (at 5 28 29) ''a'' Load),
      Keyword ''y'' (Name (at 5 33 34) ''b'' Load),
      Positional (Name (at 5 36 37) ''c'' Load)]"

section \<open>Theorems\<close>

subsection \<open>The visitor wrappers\<close>

text \<open>
  C6. When the inner visit raises an exception (an instance of \<open>Exception\<close>) that is not a
  \<open>CompilerError\<close>, both wrappers raise one \<open>CompilerError\<close> carrying that exception, the
  visited node and the step name; a \<open>CompilerError\<close> raised by the inner visit propagates
  unchanged, so a wrapper applied around another wrapper adds nothing.
\<close>

theorem visit_wraps_exactly_once:
  "(is_Exception e \<and> \<not> is_CompilerError e \<longrightarrow>
      CompilingNodeTransformer_visit step nd (Inl e :: exn + 'r) = Inl (CompilerError e nd step)
    \<and> CompilingNodeVisitor_visit step nd (Inl e :: exn + 'r) = Inl (CompilerError e nd step))
   \<and> (is_CompilerError e \<longrightarrow>
      CompilingNodeTransformer_visit step nd (Inl e :: exn + 'r) = Inl e
    \<and> CompilingNodeVisitor_visit step nd (Inl e :: exn + 'r) = Inl e)
   \<and> CompilingNodeTransformer_visit step' nd'
        (CompilingNodeTransformer_visit step nd (res :: exn + 'r))
      = CompilingNodeTransformer_visit step nd res
   \<and> CompilingNodeVisitor_visit step' nd'
        (CompilingNodeVisitor_visit step nd (res :: exn + 'r))
      = CompilingNodeVisitor_visit step nd res"
proof -
  have nested_t: "CompilingNodeTransformer_visit step' nd'
        (CompilingNodeTransformer_visit step nd res)
      = CompilingNodeTransformer_visit step nd res"
  proof (cases res)
    case (Inl x)
    then show ?thesis
      by (cases x) (simp_all add: CompilingNodeTransformer_visit_def)
  next
    case (Inr r)
    then show ?thesis by (simp add: CompilingNodeTransformer_visit_def)
  qed
  have nested_v: "CompilingNodeVisitor_visit step' nd'
        (CompilingNodeVisitor_visit step nd res)
      = CompilingNodeVisitor_visit step nd res"
  proof (cases res)
    case (Inl x)
    then show ?thesis
      by (cases x) (simp_all add: CompilingNodeVisitor_visit_def)
  next
    case (Inr r)
    then show ?thesis by (simp add: CompilingNodeVisitor_visit_def)
  qed
  show ?thesis
    using nested_t nested_v
    by (cases e) (simp_all add: CompilingNodeTransformer_visit_def CompilingNodeVisitor_visit_def)
qed

theorem visit_wraps_exactly_once_witness:
  "is_Exception (Exc NameError) \<and> \<not> is_CompilerError (Exc NameError)
   \<and> CompilingNodeTransformer_visit ''Node transformation'' NoneNode
        (Inl (Exc NameError) :: exn + unit)
      = Inl (CompilerError (Exc NameError) NoneNode ''Node transformation'')
   \<and> CompilingNodeVisitor_visit ''Node visiting'' NoneNode
        (Inl (Exc NameError) :: exn + unit)
      = Inl (CompilerError (Exc NameError) NoneNode ''Node visiting'')"
  using visit_wraps_exactly_once [of "Exc NameError" "''Node transformation''" NoneNode
      "''x''" NoneNode "Inr ()"]
    visit_wraps_exactly_once [of "Exc NameError" "''Node visiting''" NoneNode
      "''x''" NoneNode "Inr ()"]
  by simp

subsection \<open>\<open>data_from_json\<close>\<close>

lemma py_contains_no_NIE: "py_contains k j \<noteq> Inl (NotImplementedError x)"
  by (cases j) auto

lemma py_getitem_no_NIE: "py_getitem j k \<noteq> Inl (NotImplementedError x)"
  by (cases j) (auto split: option.splits)

lemma py_iter_no_NIE: "py_iter j \<noteq> Inl (NotImplementedError x)"
  by (cases j) auto

lemma bytes_fromhex_no_NIE: "bytes_fromhex j \<noteq> Inl (NotImplementedError x)"
  by (cases j) (auto simp: bytes_fromhex_def split: option.splits)

lemma py_int_no_NIE: "py_int j \<noteq> Inl (NotImplementedError x)"
  by (cases j) (auto simp: py_int_def split: option.splits pyfloat.splits)

lemma map_comprehension_no_NIE: "map_comprehension ds acc \<noteq> Inl (NotImplementedError x)"
  by (induction ds arbitrary: acc)
     (auto split: sum.splits simp: py_getitem_no_NIE)

lemmas no_NIE = py_contains_no_NIE py_getitem_no_NIE py_iter_no_NIE bytes_fromhex_no_NIE
  py_int_no_NIE map_comprehension_no_NIE


lemma in_keys_iff: "k \<in> set (map fst kvs) \<longleftrightarrow> map_of kvs k \<noteq> None"
  by (simp add: map_of_eq_None_iff)

lemma data_from_json_JDict:
  "data_from_json (JDict kvs) =
     (case map_of kvs ''bytes'' of
        Some v \<Rightarrow> (case bytes_fromhex v of Inl e \<Rightarrow> Inl e | Inr bs \<Rightarrow> Inr (PlutusByteString bs))
      | None \<Rightarrow>
     (case map_of kvs ''int'' of
        Some v \<Rightarrow> (case py_int v of Inl e \<Rightarrow> Inl e | Inr i \<Rightarrow> Inr (PlutusInteger i))
      | None \<Rightarrow>
     (case map_of kvs ''list'' of
        Some v \<Rightarrow>
          (case py_iter v of
             Inl e \<Rightarrow> Inl e
           | Inr xs \<Rightarrow>
               (case data_from_json_list xs of Inl e \<Rightarrow> Inl e | Inr ds \<Rightarrow> Inr (PlutusList ds)))
      | None \<Rightarrow>
     (case map_of kvs ''map'' of
        Some v \<Rightarrow>
          (case py_iter v of
             Inl e \<Rightarrow> Inl e
           | Inr ds \<Rightarrow>
               (case map_comprehension ds [] of Inl e \<Rightarrow> Inl e | Inr m \<Rightarrow> Inr (PlutusMap m)))
      | None \<Rightarrow>
     (case map_of kvs ''constructor'' of
        None \<Rightarrow> Inl (NotImplementedError (JDict kvs))
      | Some c \<Rightarrow>
          (case map_of kvs ''fields'' of
             None \<Rightarrow> Inl (NotImplementedError (JDict kvs))
           | Some f \<Rightarrow> Inr (PlutusConstr c f)))))))"
  unfolding data_from_json.simps [of "JDict kvs"] py_contains.simps py_getitem.simps in_keys_iff
  by (simp split: option.split)

declare data_from_json.simps [simp del]

lemma data_from_json_nondict:
  "\<forall>kvs. j \<noteq> JDict kvs \<Longrightarrow> data_from_json j = Inl e \<Longrightarrow> e = TypeError \<or> e = NotImplementedError j"
  by (cases j) (auto simp: data_from_json.simps split: if_splits bool.splits)

lemma NIE_msz:
  "data_from_json j = Inl (NotImplementedError x) \<Longrightarrow> msz x \<le> msz j"
  "data_from_json_list xs = Inl (NotImplementedError x) \<Longrightarrow> msz x \<le> msz_list xs"
proof (induction j and xs rule: data_from_json_data_from_json_list.induct)
  case (1 j)
  show ?case
  proof (cases "\<exists>kvs. j = JDict kvs")
    case False
    with data_from_json_nondict[OF _ "1.prems"] show ?thesis by auto
  next
    case True
    then obtain kvs where j: "j = JDict kvs" by blast
    show ?thesis
    proof (cases "map_of kvs ''bytes'' = None \<and> map_of kvs ''int'' = None
        \<and> map_of kvs ''list'' \<noteq> None")
      case True
      then obtain v where v: "map_of kvs ''list'' = Some v" by blast
      with True "1.prems" j obtain xs where xs: "py_iter v = Inr xs"
        and r: "data_from_json_list xs = Inl (NotImplementedError x)"
        by (auto simp: data_from_json_JDict no_NIE split: sum.splits)
      have g: "py_getitem j ''list'' = Inr v" using v j by simp
      have "py_contains ''bytes'' j = Inr False" "py_contains ''int'' j = Inr False"
        "py_contains ''list'' j = Inr True"
        using True j by (auto simp: map_of_eq_None_iff [symmetric] dest: map_of_SomeD intro: rev_image_eqI)
      with "1.IH" g xs r have "msz x \<le> msz_list xs" by blast
      with msz_py_iter[OF g xs] show ?thesis by simp
    next
      case False
      with "1.prems" j have "x = j"
        by (auto simp: data_from_json_JDict no_NIE split: sum.splits option.splits)
      then show ?thesis by simp
    qed
  qed
next
  case 2
  then show ?case by simp
next
  case (3 x' xs)
  then show ?case by (auto split: sum.splits)
qed

text \<open>
  C10, as stated, fails: a dictionary with the key \<open>list\<close> raises \<open>NotImplementedError\<close>
  when one of the list's elements has none of the recognised keys.
\<close>

theorem data_from_json_nested_counterexample:
  "data_from_json (JDict [(''list'', JList [JDict []])]) = Inl (NotImplementedError (JDict []))
   \<and> ''list'' \<in> fst ` set [(''list'', JList [JDict []])]"
  by (simp add: data_from_json.simps)

text \<open>
  C10, amended. On a dictionary the keys are tested in the order \<open>bytes\<close>, \<open>int\<close>, \<open>list\<close>,
  \<open>map\<close>, then \<open>constructor\<close> together with \<open>fields\<close>, and the first match decides the
  decoding. The call raises the \<open>NotImplementedError\<close> that reports its own argument exactly
  when none of these tests succeeds; a \<open>NotImplementedError\<close> raised for an element of the
  \<open>list\<close> value propagates from the \<open>list\<close> branch.
\<close>

theorem data_from_json_first_match:
  "data_from_json (JDict kvs) =
     (if ''bytes'' \<in> fst ` set kvs then
        (case bytes_fromhex (the (map_of kvs ''bytes'')) of
           Inl e \<Rightarrow> Inl e | Inr bs \<Rightarrow> Inr (PlutusByteString bs))
      else if ''int'' \<in> fst ` set kvs then
        (case py_int (the (map_of kvs ''int'')) of
           Inl e \<Rightarrow> Inl e | Inr i \<Rightarrow> Inr (PlutusInteger i))
      else if ''list'' \<in> fst ` set kvs then
        (case py_iter (the (map_of kvs ''list'')) of
           Inl e \<Rightarrow> Inl e
         | Inr xs \<Rightarrow>
             (case data_from_json_list xs of Inl e \<Rightarrow> Inl e | Inr ds \<Rightarrow> Inr (PlutusList ds)))
      else if ''map'' \<in> fst ` set kvs then
        (case py_iter (the (map_of kvs ''map'')) of
           Inl e \<Rightarrow> Inl e
         | Inr ds \<Rightarrow>
             (case map_comprehension ds [] of Inl e \<Rightarrow> Inl e | Inr m \<Rightarrow> Inr (PlutusMap m)))
      else if ''constructor'' \<in> fst ` set kvs \<and> ''fields'' \<in> fst ` set kvs then
        Inr (PlutusConstr (the (map_of kvs ''constructor'')) (the (map_of kvs ''fields'')))
      else Inl (NotImplementedError (JDict kvs)))
   \<and> (data_from_json (JDict kvs) = Inl (NotImplementedError (JDict kvs)) \<longleftrightarrow>
        ''bytes'' \<notin> fst ` set kvs \<and> ''int'' \<notin> fst ` set kvs \<and> ''list'' \<notin> fst ` set kvs
        \<and> ''map'' \<notin> fst ` set kvs
        \<and> \<not> (''constructor'' \<in> fst ` set kvs \<and> ''fields'' \<in> fst ` set kvs))"
proof -
  have keys: "\<And>k. k \<in> fst ` set kvs \<longleftrightarrow> map_of kvs k \<noteq> None"
    by (simp add: map_of_eq_None_iff)
  have chain: "data_from_json (JDict kvs) =
     (if ''bytes'' \<in> fst ` set kvs then
        (case bytes_fromhex (the (map_of kvs ''bytes'')) of
           Inl e \<Rightarrow> Inl e | Inr bs \<Rightarrow> Inr (PlutusByteString bs))
      else if ''int'' \<in> fst ` set kvs then
        (case py_int (the (map_of kvs ''int'')) of
           Inl e \<Rightarrow> Inl e | Inr i \<Rightarrow> Inr (PlutusInteger i))
      else if ''list'' \<in> fst ` set kvs then
        (case py_iter (the (map_of kvs ''list'')) of
           Inl e \<Rightarrow> Inl e
         | Inr xs \<Rightarrow>
             (case data_from_json_list xs of Inl e \<Rightarrow> Inl e | Inr ds \<Rightarrow> Inr (PlutusList ds)))
      else if ''map'' \<in> fst ` set kvs then
        (case py_iter (the (map_of kvs ''map'')) of
           Inl e \<Rightarrow> Inl e
         | Inr ds \<Rightarrow>
             (case map_comprehension ds [] of Inl e \<Rightarrow> Inl e | Inr m \<Rightarrow> Inr (PlutusMap m)))
      else if ''constructor'' \<in> fst ` set kvs \<and> ''fields'' \<in> fst ` set kvs then
        Inr (PlutusConstr (the (map_of kvs ''constructor'')) (the (map_of kvs ''fields'')))
      else Inl (NotImplementedError (JDict kvs)))"
    unfolding keys data_from_json_JDict by (simp split: option.split)
  have nie: "data_from_json (JDict kvs) = Inl (NotImplementedError (JDict kvs))"
    if "''bytes'' \<notin> fst ` set kvs" "''int'' \<notin> fst ` set kvs" "''list'' \<notin> fst ` set kvs"
      "''map'' \<notin> fst ` set kvs"
      "\<not> (''constructor'' \<in> fst ` set kvs \<and> ''fields'' \<in> fst ` set kvs)"
    using that unfolding chain by simp
  have own: "''list'' \<notin> fst ` set kvs"
    if r: "data_from_json (JDict kvs) = Inl (NotImplementedError (JDict kvs))"
      and b: "''bytes'' \<notin> fst ` set kvs" "''int'' \<notin> fst ` set kvs"
  proof
    assume l: "''list'' \<in> fst ` set kvs"
    then obtain v where v: "map_of kvs ''list'' = Some v" unfolding keys by blast
    from r b v obtain xs where xs: "py_iter v = Inr xs"
      and e: "data_from_json_list xs = Inl (NotImplementedError (JDict kvs))"
      unfolding keys data_from_json_JDict by (auto simp: no_NIE split: sum.splits)
    have g: "py_getitem (JDict kvs) ''list'' = Inr v" using v by simp
    from NIE_msz(2)[OF e] msz_py_iter[OF g xs] show False by simp
  qed
  have rest: "''bytes'' \<notin> fst ` set kvs \<and> ''int'' \<notin> fst ` set kvs
      \<and> (''list'' \<notin> fst ` set kvs \<longrightarrow> ''map'' \<notin> fst ` set kvs
        \<and> \<not> (''constructor'' \<in> fst ` set kvs \<and> ''fields'' \<in> fst ` set kvs))"
    if r: "data_from_json (JDict kvs) = Inl (NotImplementedError (JDict kvs))"
    using r unfolding chain by (auto simp: no_NIE split: if_splits sum.splits)
  show ?thesis using chain nie own rest by blast
qed

theorem data_from_json_first_match_witness:
  "data_from_json (JDict [(''int'', JInt 5), (''bytes'', JStr ''0a'')])
     = Inr (PlutusByteString [10])
   \<and> data_from_json (JDict [(''constructor'', JInt 0)])
     = Inl (NotImplementedError (JDict [(''constructor'', JInt 0)]))"
  using data_from_json_first_match [of "[(''int'', JInt 5), (''bytes'', JStr ''0a'')]"]
    data_from_json_first_match [of "[(''constructor'', JInt 0)]"]
  by (simp add: bytes_fromhex_def hexval_def isspace_def)

subsection \<open>The constant-folding pass\<close>

lemma SAFE_GLOBALS_items:
  "SAFE_GLOBALS = map (\<lambda>x. (builtin_name x, PBuiltin x)) SAFE_GLOBALS_LIST"
  by (simp add: SAFE_GLOBALS_def SAFE_GLOBALS_LIST_def)

lemma map_of_map_items:
  "map_of (map (\<lambda>(k, v). (k, f k v)) xs) k = map_option (f k) (map_of xs k)"
  by (induction xs) auto

text \<open>
  C1. The table handed to \<open>exec\<close> and \<open>eval\<close> is meant to hold safe built-ins only, yet
  in the state the pass starts from, whatever the initial scope, it binds \<open>open\<close> and
  \<open>input\<close> to the built-in functions of these names.
\<close>

theorem safe_globals_expose_open_and_input:
  "non_overwritten_globals (OptimizeConstantFolding_init ks) ''open'' = Some (PBuiltin B_open)
   \<and> non_overwritten_globals (OptimizeConstantFolding_init ks) ''input'' = Some (PBuiltin B_input)"
  by (simp add: non_overwritten_globals_def OptimizeConstantFolding_init_def visible_vars_def
      map_of_map_items SAFE_GLOBALS_items SAFE_GLOBALS_LIST_def)

text \<open>
  C2. A name assigned once at the top of a function body and once more inside a conditional
  branch, or inside a \<open>for\<close> body, has the count 1: it is in the single-assignment set.
  So is a name whose only write is inside a \<open>while\<close> body.
\<close>

theorem write_in_branch_counted_once:
  "''x'' \<in> single_assignment_set write_in_branch
   \<and> ''x'' \<in> single_assignment_set write_in_loop
   \<and> ''x'' \<in> single_assignment_set write_in_while"
  by (simp add: single_assignment_set_def write_in_branch_def write_in_loop_def
      write_in_while_def bump_def)

lemma sas_ann: "single_assignment_set annotated_assignment = {''validator'', ''x''}"
  by (simp add: single_assignment_set_def annotated_assignment_def bump_def)

lemma sas_plain: "single_assignment_set plain_assignment = {''validator'', ''x''}"
  by (simp add: single_assignment_set_def plain_assignment_def bump_def)

lemma SAFE_GLOBALS_x: "map_of SAFE_GLOBALS ''x'' = None"
  by (simp add: SAFE_GLOBALS_items SAFE_GLOBALS_LIST_def)

lemma sas_const: "single_assignment_set annotated_constant = {''validator'', ''x''}"
  by (simp add: single_assignment_set_def annotated_constant_def bump_def)

text \<open>
  C3. With a host whose \<open>exec\<close> fails on the assignment, the pass aborts on the annotated
  assignment with a \<open>CompilerError\<close> for that statement, while on the plain assignment it
  recovers and returns the module unchanged. With a host whose \<open>exec\<close> succeeds, the
  annotated assignment aborts the pass as well, with a \<open>KeyError\<close> for the target.
\<close>

theorem annotated_assignment_failure_escapes:
  "OptimizeConstantFolding_visit unbound_host (OptimizeConstantFolding_init {})
       annotated_assignment
     = Inl (CompilerError (Exc NameError)
             (StmtNode
                (AnnAssign (Name (at 2 4 5) ''x'' Store) (Name (at 2 7 10) ''int'' Load)
                   (Some (BinOp (at 2 13 18) (Name (at 2 13 14) ''a'' Load) Add
                            (Constant (at 2 17 18) (PInt 1))))))
             ''Constant folding'')
   \<and> (\<exists>st. OptimizeConstantFolding_visit unbound_host (OptimizeConstantFolding_init {})
              plain_assignment = Inr (plain_assignment, st))
   \<and> OptimizeConstantFolding_visit binding_host (OptimizeConstantFolding_init {})
       annotated_constant
     = Inl (CompilerError (Exc (KeyError ''x''))
             (StmtNode
                (AnnAssign (Name (at 2 4 5) ''x'' Store) (Name (at 2 7 10) ''int'' Load)
                   (Some (Constant (at 2 13 14) (PInt 5)))))
             ''Constant folding'')"
proof -
  have a: "OptimizeConstantFolding_visit unbound_host (OptimizeConstantFolding_init {})
       annotated_assignment
     = Inl (CompilerError (Exc NameError)
             (StmtNode
                (AnnAssign (Name (at 2 4 5) ''x'' Store) (Name (at 2 7 10) ''int'' Load)
                   (Some (BinOp (at 2 13 18) (Name (at 2 13 14) ''a'' Load) Add
                            (Constant (at 2 17 18) (PInt 1))))))
             ''Constant folding'')"
    unfolding OptimizeConstantFolding_visit_def visit_Module_def sas_ann
    by (simp add: annotated_assignment_def unbound_host_def
        OptimizeConstantFolding_init_def enter_scope_def add_vars_visible_def
        add_var_visible_def add_constant_def exit_scope_def
        visit_AnnAssign_def CompilingNodeTransformer_visit_def fold_visited_def
        OptimizeConstantFolding_step_def)
  have b: "\<exists>st. OptimizeConstantFolding_visit unbound_host (OptimizeConstantFolding_init {})
              plain_assignment = Inr (plain_assignment, st)"
    unfolding OptimizeConstantFolding_visit_def visit_Module_def sas_plain
    by (simp add: plain_assignment_def unbound_host_def
        OptimizeConstantFolding_init_def enter_scope_def add_vars_visible_def
        add_var_visible_def add_constant_def exit_scope_def
        visit_Assign_def CompilingNodeTransformer_visit_def fold_visited_def
        OptimizeConstantFolding_step_def)
  have c: "OptimizeConstantFolding_visit binding_host (OptimizeConstantFolding_init {})
       annotated_constant
     = Inl (CompilerError (Exc (KeyError ''x''))
             (StmtNode
                (AnnAssign (Name (at 2 4 5) ''x'' Store) (Name (at 2 7 10) ''int'' Load)
                   (Some (Constant (at 2 13 14) (PInt 5)))))
             ''Constant folding'')"
    unfolding OptimizeConstantFolding_visit_def visit_Module_def sas_const
    by (simp add: annotated_constant_def binding_host_def
        OptimizeConstantFolding_init_def enter_scope_def add_vars_visible_def
        add_var_visible_def add_constant_def exit_scope_def
        visit_AnnAssign_def CompilingNodeTransformer_visit_def fold_visited_def
        OptimizeConstantFolding_step_def non_overwritten_globals_def visible_vars_def
        SAFE_GLOBALS_x map_of_map_items)
  from a b c show ?thesis by blast
qed

lemma wrapper_Inr [simp]:
  "CompilingNodeTransformer_visit s n r = Inr x \<longleftrightarrow> r = Inr x"
  by (cases r) (auto simp: CompilingNodeTransformer_visit_def)

lemma visit_Import_None:
  "visit_Import h st names = Inr (r, st') \<Longrightarrow> r = None"
  by (auto simp: visit_Import_def Let_def split: if_splits sum.splits)

lemma visit_ClassDef_unvisited:
  "visit_ClassDef h st name bases body = Inr (r, st') \<Longrightarrow> r = Some (ClassDef name bases body)"
  by (auto simp: visit_ClassDef_def Let_def split: if_splits sum.splits option.splits)

lemma visit_Assign_free:
  "visit_Assign h st targets v = Inr (Some s', st') \<Longrightarrow> \<not> outside_classes_Import s'"
  by (auto simp: visit_Assign_def Let_def
      split: if_splits sum.splits option.splits list.splits expr.splits)

lemma visit_AnnAssign_free:
  "visit_AnnAssign h st target ann v = Inr (Some s', st') \<Longrightarrow> \<not> outside_classes_Import s'"
  by (auto simp: visit_AnnAssign_def Let_def
      split: if_splits sum.splits option.splits expr.splits)

lemma visit_removes_imports:
  "visit_stmt h st s = Inr (r, st')
     \<Longrightarrow> (case r of None \<Rightarrow> True | Some s' \<Rightarrow> \<not> outside_classes_Import s')"
  "visit_method h st s = Inr (r, st')
     \<Longrightarrow> (case r of None \<Rightarrow> True | Some s' \<Rightarrow> \<not> outside_classes_Import s')"
  "generic_visit_stmt h st s = Inr (s1, st') \<Longrightarrow> (\<forall>names. s \<noteq> Import names)
     \<Longrightarrow> \<not> outside_classes_Import s1"
  "visit_stmts h st ss = Inr (ss', st') \<Longrightarrow> \<not> outside_classes_Import_list ss'"
proof (induction h st s and h st s and h st s and h st ss
    arbitrary: r st' and r st' and s1 st' and ss' st'
    rule: visit_stmt_visit_method_generic_visit_stmt_visit_stmts.induct)
  case (1 h st s)
  then show ?case by simp
next
  case (2 h st name as body returns)
  then show ?case
    by (auto simp del: generic_visit_stmt.simps
        split: sum.splits if_splits option.splits prod.splits)
next
  case (3 h st name bases body)
  then show ?case by (auto dest: visit_ClassDef_unvisited)
next
  case (4 h st names)
  then show ?case by (auto dest: visit_Import_None)
next
  case (5 h st targets v)
  then show ?case by (auto split: option.splits dest: visit_Assign_free)
next
  case (6 h st target ann v)
  then show ?case by (auto split: option.splits dest: visit_AnnAssign_free)
qed (auto split: sum.splits prod.splits option.splits)

lemma sas_class: "single_assignment_set class_with_import = {''A''}"
  by (simp add: single_assignment_set_def class_with_import_def bump_def)

text \<open>
  C9, as stated, fails: an \<open>import\<close> statement inside the body of a class definition is
  never visited, and the pass returns the module with the statement still in it.
\<close>

theorem import_in_class_body_counterexample:
  "OptimizeConstantFolding_visit class_host (OptimizeConstantFolding_init {}) class_with_import
     = Inr (class_with_import, (OptimizeConstantFolding_init {})\<lparr>constants := {''A''}\<rparr>)
   \<and> contains_Import_list (module_body class_with_import)"
  unfolding OptimizeConstantFolding_visit_def visit_Module_def sas_class
  by (simp add: class_with_import_def class_host_def
      OptimizeConstantFolding_init_def enter_scope_def add_vars_visible_def
      add_constant_def exit_scope_def visit_ClassDef_def
      CompilingNodeTransformer_visit_def)

text \<open>
  C9, amended. Visiting an \<open>Import\<close> statement returns \<open>None\<close> whenever the scope stack is not
  empty, and never returns a replacement node, whatever the host, the names imported and
  the single-assignment set. So no statement list the pass rebuilds, and no module it
  returns, contains an \<open>Import\<close> statement outside the bodies of class definitions. A class
  definition is returned as it is, its body unvisited, so an \<open>Import\<close> statement inside a
  class body stays in the transformed AST.
\<close>

theorem visit_Import_removes_statement:
  "(scopes_constants st \<noteq> [] \<longrightarrow> (\<exists>st'. visit_stmt h st (Import names) = Inr (None, st')))
   \<and> (\<forall>r st'. visit_stmt h st (Import names) = Inr (r, st') \<longrightarrow> r = None)
   \<and> (\<forall>ss' st'. visit_stmts h st ss = Inr (ss', st') \<longrightarrow> \<not> outside_classes_Import_list ss')
   \<and> (\<forall>m' st'. OptimizeConstantFolding_visit h st m = Inr (m', st')
         \<longrightarrow> \<not> outside_classes_Import_list (module_body m'))
   \<and> (\<forall>r st'. visit_stmt h st (ClassDef name bases body) = Inr (r, st')
         \<longrightarrow> r = Some (ClassDef name bases body))"
proof -
  have a: "\<exists>st'. visit_stmt h st (Import names) = Inr (None, st')" if "scopes_constants st \<noteq> []"
    using that by (auto simp: visit_Import_def Let_def split: sum.splits)
  have b: "r = None" if "visit_stmt h st (Import names) = Inr (r, st')" for r st'
    using that by (auto dest: visit_Import_None)
  have c: "\<not> outside_classes_Import_list ss'" if "visit_stmts h st ss = Inr (ss', st')"
    for ss' st'
    using that by (rule visit_removes_imports(4))
  have d: "\<not> outside_classes_Import_list (module_body m')"
    if "OptimizeConstantFolding_visit h st m = Inr (m', st')" for m' st'
    using that
    by (cases m)
       (auto simp: OptimizeConstantFolding_visit_def visit_Module_def
          split: sum.splits prod.splits dest: visit_removes_imports(4))
  have e: "r = Some (ClassDef name bases body)"
    if "visit_stmt h st (ClassDef name bases body) = Inr (r, st')" for r st'
    using that by (auto dest: visit_ClassDef_unvisited)
  from a b c d e show ?thesis by blast
qed

theorem visit_Import_removes_statement_witness:
  "scopes_constants (OptimizeConstantFolding_init {}) \<noteq> []
   \<and> visit_stmt unbound_host (OptimizeConstantFolding_init {}) (Import [Alias ''os'' None])
       = Inr (None, OptimizeConstantFolding_init {})
   \<and> visit_stmts unbound_host (OptimizeConstantFolding_init {})
         [Import [Alias ''os'' None], Pass]
       = Inr ([Pass], OptimizeConstantFolding_init {})
   \<and> \<not> outside_classes_Import_list [Pass]"
  using visit_Import_removes_statement [where st = "OptimizeConstantFolding_init {}"
      and h = unbound_host and names = "[Alias ''os'' None]"
      and ss = "[Import [Alias ''os'' None], Pass]" and m = "Module []"
      and name = "''A''" and bases = "[]" and body = "[]"]
  by (simp add: visit_Import_def alias_in_constants_def OptimizeConstantFolding_init_def
      CompilingNodeTransformer_visit_def)

lemma SAFE_GLOBALS_abs: "map_of SAFE_GLOBALS ''abs'' = Some (PBuiltin B_abs)"
  by (simp add: SAFE_GLOBALS_items SAFE_GLOBALS_LIST_def)

text \<open>
  C5, as stated, fails: the list \<^verbatim>\<open>[abs]\<close> evaluates to a list holding a built-in
  function, which is not a container of accepted atomic values, and the node is replaced
  by a constant all the same.
\<close>

theorem fold_list_of_function_counterexample:
  "generic_visit_expr literal_host (OptimizeConstantFolding_init {}) list_of_abs
     = Inr (Constant (at 1 0 5) (PList [PBuiltin B_abs]))
   \<and> \<not> spec_accepted (PList [PBuiltin B_abs])"
  by (simp add: list_of_abs_def literal_host_def fold_visited_def
      CompilingNodeTransformer_visit_def non_overwritten_globals_def visible_vars_def
      constant_vars_def OptimizeConstantFolding_init_def SAFE_GLOBALS_abs map_of_map_items
        map_add_def
      ACCEPTED_ATOMIC_TYPES_def)

lemma NodeTransformer_generic_visit_expr_span:
  "NodeTransformer_generic_visit_expr h st e = Inr node \<Longrightarrow> span_of node = span_of e"
  by (cases e) (auto split: sum.splits)

text \<open>
  C5, amended. Let \<open>node\<close> be the expression after its children have been visited; it has
  the span of the original. The result of \<open>generic_visit\<close> is a constant carrying the
  evaluated value \<open>v\<close> and that span whenever \<open>node\<close> is not a constant, its unparsed text
  does not contain \<^verbatim>\<open>print(\<close>, the evaluation returns \<open>v\<close>, and \<open>v\<close> is an instance of
  \<open>int\<close>, \<open>str\<close>, \<open>bytes\<close>, \<open>NoneType\<close>, \<open>bool\<close>, \<open>list\<close> or \<open>dict\<close>, whatever a list or
  dict contains; and a result other than \<open>node\<close> arises in this way only.
\<close>

theorem generic_visit_expr_folds_iff:
  assumes "NodeTransformer_generic_visit_expr h st e = Inr node"
  shows "span_of node = span_of e
    \<and> (\<forall>v. \<not> is_Constant node
          \<and> \<not> str_contains ''print('' (unparse_expr h node)
          \<and> py_eval h (unparse_expr h node) (non_overwritten_globals st) (constant_vars st)
              = Inr v
          \<and> (\<exists>t \<in> set [T_int, T_str, T_bytes, T_NoneType, T_bool, T_list, T_dict].
                isinstance v t)
        \<longrightarrow> generic_visit_expr h st e = Inr (Constant (span_of e) v))
    \<and> (\<forall>e'. generic_visit_expr h st e = Inr e' \<and> e' \<noteq> node
        \<longrightarrow> (\<exists>v. e' = Constant (span_of e) v
              \<and> \<not> is_Constant node
              \<and> \<not> str_contains ''print('' (unparse_expr h node)
              \<and> py_eval h (unparse_expr h node) (non_overwritten_globals st) (constant_vars st)
                  = Inr v
              \<and> (\<exists>t \<in> set [T_int, T_str, T_bytes, T_NoneType, T_bool, T_list, T_dict].
                    isinstance v t)))"
proof -
  have sp: "span_of node = span_of e"
    using assms by (rule NodeTransformer_generic_visit_expr_span)
  have g: "generic_visit_expr h st e = fold_visited h st node"
    using assms by simp
  have fwd: "generic_visit_expr h st e = Inr (Constant (span_of e) v)"
    if "\<not> is_Constant node" "\<not> str_contains ''print('' (unparse_expr h node)"
      "py_eval h (unparse_expr h node) (non_overwritten_globals st) (constant_vars st) = Inr v"
      "\<exists>t \<in> set [T_int, T_str, T_bytes, T_NoneType, T_bool, T_list, T_dict]. isinstance v t"
    for v
    using that unfolding g fold_visited_def sp [symmetric]
    by (auto simp: ACCEPTED_ATOMIC_TYPES_def Let_def)
  have bwd: "\<exists>v. e' = Constant (span_of e) v
              \<and> \<not> is_Constant node
              \<and> \<not> str_contains ''print('' (unparse_expr h node)
              \<and> py_eval h (unparse_expr h node) (non_overwritten_globals st) (constant_vars st)
                  = Inr v
              \<and> (\<exists>t \<in> set [T_int, T_str, T_bytes, T_NoneType, T_bool, T_list, T_dict].
                    isinstance v t)"
    if "generic_visit_expr h st e = Inr e'" "e' \<noteq> node" for e'
    using that unfolding g fold_visited_def sp [symmetric]
    by (auto simp: ACCEPTED_ATOMIC_TYPES_def Let_def split: if_splits sum.splits)
  from sp fwd bwd show ?thesis by blast
qed

theorem generic_visit_expr_folds_iff_witness:
  "NodeTransformer_generic_visit_expr literal_host (OptimizeConstantFolding_init {}) list_of_abs
     = Inr list_of_abs
   \<and> span_of list_of_abs = at 1 0 5
   \<and> generic_visit_expr literal_host (OptimizeConstantFolding_init {}) list_of_abs
     = Inr (Constant (at 1 0 5) (PList [PBuiltin B_abs]))"
proof -
  have h: "NodeTransformer_generic_visit_expr literal_host (OptimizeConstantFolding_init {})
      list_of_abs = Inr list_of_abs"
    by (simp add: list_of_abs_def literal_host_def fold_visited_def
        CompilingNodeTransformer_visit_def non_overwritten_globals_def visible_vars_def
        constant_vars_def OptimizeConstantFolding_init_def SAFE_GLOBALS_abs map_of_map_items
        map_add_def
        ACCEPTED_ATOMIC_TYPES_def)
  have ev: "py_eval literal_host (unparse_expr literal_host list_of_abs)
      (non_overwritten_globals (OptimizeConstantFolding_init {}))
      (constant_vars (OptimizeConstantFolding_init {})) = Inr (PList [PBuiltin B_abs])"
    by (simp add: list_of_abs_def literal_host_def non_overwritten_globals_def visible_vars_def
        constant_vars_def OptimizeConstantFolding_init_def SAFE_GLOBALS_abs map_of_map_items
        map_add_def)
  have np: "\<not> str_contains ''print('' (unparse_expr literal_host list_of_abs)"
    by (simp add: list_of_abs_def literal_host_def)
  from generic_visit_expr_folds_iff [OF h] ev np
  have "generic_visit_expr literal_host (OptimizeConstantFolding_init {}) list_of_abs
     = Inr (Constant (span_of list_of_abs) (PList [PBuiltin B_abs]))"
    by (simp add: list_of_abs_def)
  with h show ?thesis by (simp add: list_of_abs_def)
qed

subsection \<open>The built-in catalogue\<close>

text \<open>
  C4. The IR lambda registered for \<open>all\<close> starts its fold from the integer 0: on the
  empty list it yields that integer, not the Boolean true, and on the list holding the
  single value true it does not yield true either.
\<close>

theorem all_of_empty_list_is_not_true:
  "PythonBuiltIn_all (VList []) u = Inr (VInt 0)
   \<and> PythonBuiltIn_all (VList []) u \<noteq> Inr (VBool (list_all id []))
   \<and> PythonBuiltIn_all (VList [VBool True]) u \<noteq> Inr (VBool (list_all id [True]))"
  by (simp add: PythonBuiltIn_all_def plt_FoldList_def plt_Var_def plt_Integer_def
      plt_And_def plt_Ite_def)

lemma fold_count:
  "fold_vm (\<lambda>a _. plt_AddInteger (plt_Var a) (plt_Integer 1)) xs (VInt n)
     = Inr (VInt (n + int (length xs)))"
  by (induction xs arbitrary: n)
     (simp_all add: plt_AddInteger_def plt_Var_def plt_Integer_def)

lemma fold_count_unfolded:
  "fold_vm (\<lambda>a _. plt_AddInteger (Inr a) (Inr (VInt 1))) xs (VInt n)
     = Inr (VInt (n + int (length xs)))"
  using fold_count [of xs n] by (simp add: plt_Var_def plt_Integer_def)

text \<open>
  C7. For one argument of an instance type, \<open>type_from_args\<close> returns a function type with
  result integer. \<open>impl_from_args\<close> yields an implementation exactly for the byte string
  instance type and for instances of a list type; the first computes the number of bytes,
  the second counts the elements by a fold; for every other instance type it raises
  \<open>NotImplementedError\<close>.
\<close>

theorem Len_specialisation:
  "Len_type_from_args [InstanceType t] = Inr (FunctionType [InstanceType t] IntegerInstanceType)
   \<and> (\<exists>f. Len_impl_from_args [InstanceType ByteStringType] = Inr f
         \<and> (\<forall>bs u. f (VBytes bs) u = Inr (VInt (int (length bs)))))
   \<and> (\<exists>f. Len_impl_from_args [InstanceType (ListType el)] = Inr f
         \<and> (\<forall>xs u. f (VList xs) u = Inr (VInt (int (length xs)))))
   \<and> ((\<exists>f. Len_impl_from_args [InstanceType t] = Inr f)
        \<longleftrightarrow> t = ByteStringType \<or> (\<exists>el. t = ListType el))
   \<and> (t \<noteq> ByteStringType \<and> (\<forall>el. t \<noteq> ListType el)
        \<longrightarrow> Len_impl_from_args [InstanceType t] = Inl (NotImplementedError (InstanceType t)))"
proof -
  have ty: "Len_type_from_args [InstanceType t]
      = Inr (FunctionType [InstanceType t] IntegerInstanceType)"
    by (simp add: Len_type_from_args_def)
  have bs: "\<exists>f. Len_impl_from_args [InstanceType ByteStringType] = Inr f
         \<and> (\<forall>bs u. f (VBytes bs) u = Inr (VInt (int (length bs))))"
    by (simp add: Len_impl_from_args_def ByteStringInstanceType_def
        plt_LengthOfByteString_def plt_Var_def)
  have ls: "\<exists>f. Len_impl_from_args [InstanceType (ListType el)] = Inr f
         \<and> (\<forall>xs u. f (VList xs) u = Inr (VInt (int (length xs))))"
    by (simp add: Len_impl_from_args_def ByteStringInstanceType_def
        plt_FoldList_def plt_Var_def plt_Integer_def fold_count_unfolded)
  have other: "Len_impl_from_args [InstanceType t] = Inl (NotImplementedError (InstanceType t))"
    if "t \<noteq> ByteStringType" "\<forall>el. t \<noteq> ListType el"
    using that by (cases t) (simp_all add: Len_impl_from_args_def ByteStringInstanceType_def)
  have def_iff: "(\<exists>f. Len_impl_from_args [InstanceType t] = Inr f)
        \<longleftrightarrow> t = ByteStringType \<or> (\<exists>el. t = ListType el)"
    by (cases t) (simp_all add: Len_impl_from_args_def ByteStringInstanceType_def)
  from ty bs ls other def_iff show ?thesis by blast
qed

theorem Len_specialisation_witness:
  "IntegerType \<noteq> ByteStringType \<and> (\<forall>el. IntegerType \<noteq> ListType el)
   \<and> Len_impl_from_args [InstanceType IntegerType]
       = Inl (NotImplementedError (InstanceType IntegerType))
   \<and> Len_type_from_args [InstanceType IntegerType]
       = Inr (FunctionType [InstanceType IntegerType] IntegerInstanceType)"
  using Len_specialisation [of IntegerType IntegerType]
  by simp

subsection \<open>Call arguments\<close>

lemma positional_allowed_True:
  "positional_allowed True as \<longleftrightarrow> (\<forall>a \<in> set as. \<not> is_Positional a)"
proof (induction as)
  case Nil
  then show ?case by simp
next
  case (Cons a as)
  then show ?case by (cases a) auto
qed

lemma positional_allowed_False:
  "i < j \<Longrightarrow> j < length as \<Longrightarrow> \<not> is_Positional (as ! i) \<Longrightarrow> is_Positional (as ! j)
     \<Longrightarrow> \<not> positional_allowed False as"
proof (induction as arbitrary: i j)
  case Nil
  then show ?case by simp
next
  case (Cons a as)
  show ?case
  proof (cases a)
    case (Positional e)
    with Cons.prems have "i \<noteq> 0" by (cases i) auto
    then obtain i' where i: "i = Suc i'" by (cases i) auto
    with Cons.prems obtain j' where j: "j = Suc j'" by (cases j) auto
    from Cons.IH [of i' j'] Cons.prems i j Positional show ?thesis by simp
  next
    case (Keyword k e)
    from Cons.prems obtain j' where j: "j = Suc j'" by (cases j) auto
    with Cons.prems have "as ! j' \<in> set as" "is_Positional (as ! j')" by auto
    then have "\<not> positional_allowed True as"
      unfolding positional_allowed_True by blast
    with Keyword show ?thesis by simp
  qed
qed

text \<open>
  C8. A call in which a positional argument stands after a keyword argument is rejected
  with an error, whatever the callee and its parameters: no IR term results.
\<close>

theorem positional_after_keyword_rejected:
  assumes "i < j" and "j < length as"
    and "\<not> is_Positional (as ! i)" and "is_Positional (as ! j)"
  shows "compile_call f ps as = Inl KeywordAfterPositional
    \<and> (\<forall>ir. compile_call f ps as \<noteq> Inr ir)"
  using positional_allowed_False [OF assms]
  by (simp add: compile_call_def match_call_args_def)

theorem positional_after_keyword_rejected_witness:
  "(0::nat) < 2 \<and> 2 < length call_xa_yb_c
   \<and> \<not> is_Positional (call_xa_yb_c ! 0) \<and> is_Positional (call_xa_yb_c ! 2)
   \<and> compile_call (Name (at 5 11 25) ''simple_example'' Load)
        [(''x'', None), (''y'', None), (''z'', None)] call_xa_yb_c
       = Inl KeywordAfterPositional"
proof -
  have h: "(0::nat) < 2" "2 < length call_xa_yb_c"
    "\<not> is_Positional (call_xa_yb_c ! 0)" "is_Positional (call_xa_yb_c ! 2)"
    by (simp_all add: call_xa_yb_c_def)
  from positional_after_keyword_rejected [OF h] h show ?thesis by simp
qed

end
